theory Spec2Isabelle
  imports Complex_Main
begin

text \<open>
  A model of the class \<open>IntlFormatter\<close> of the TypeScript library intl-formatter: a
  facade over \<open>Intl.NumberFormat\<close> that merges options, probes what the host
  supports, and falls back to strings it builds itself. The host is a parameter; the
  methods are given twice, on option values and on a store of option objects, and the
  two are proved to agree.
\<close>

section \<open>Values of the host language\<close>

subsection \<open>Numbers\<close>

text \<open>
  A JavaScript number is a NaN, an infinity or a finite double, here the real number
  the double denotes. The comparisons of the formatter (\<open><\<close>, \<open>>=\<close>, \<open>Math.abs\<close>,
  \<open>Math.min\<close>, \<open>Math.max\<close>) are exact; \<open>/\<close> and \<open>-\<close> round their exact result to
  the nearest double, ties to the even significand (IEEE 754 binary64). \<open>-0\<close> is not
  told apart from \<open>0\<close> (the formatter itself never tells them apart: its only sign
  test is \<open>value < 0\<close>).
\<close>

datatype jsnum = NaN | NegInf | Fin real | PosInf

fun jlt :: "jsnum \<Rightarrow> jsnum \<Rightarrow> bool" where
  "jlt (Fin a) (Fin b) = (a < b)"
| "jlt (Fin a) PosInf = True"
| "jlt NegInf (Fin b) = True"
| "jlt NegInf PosInf = True"
| "jlt _ _ = False"

fun jge :: "jsnum \<Rightarrow> jsnum \<Rightarrow> bool" where
  "jge (Fin a) (Fin b) = (b \<le> a)"
| "jge (Fin a) NegInf = True"
| "jge PosInf (Fin b) = True"
| "jge PosInf NegInf = True"
| "jge PosInf PosInf = True"
| "jge NegInf NegInf = True"
| "jge _ _ = False"

fun Math_abs :: "jsnum \<Rightarrow> jsnum" where
  "Math_abs NaN = NaN"
| "Math_abs NegInf = PosInf"
| "Math_abs PosInf = PosInf"
| "Math_abs (Fin a) = Fin \<bar>a\<bar>"

fun Math_max :: "jsnum \<Rightarrow> jsnum \<Rightarrow> jsnum" where
  "Math_max NaN _ = NaN"
| "Math_max _ NaN = NaN"
| "Math_max a b = (if jlt a b then b else a)"

fun Math_min :: "jsnum \<Rightarrow> jsnum \<Rightarrow> jsnum" where
  "Math_min NaN _ = NaN"
| "Math_min _ NaN = NaN"
| "Math_min a b = (if jlt b a then b else a)"

subsection \<open>Rounding to a double\<close>

definition pow2 :: "int \<Rightarrow> real" where
  "pow2 e = (if 0 \<le> e then 2 ^ nat e else 1 / 2 ^ nat (- e))"

text \<open>The integer nearest to \<open>y\<close>, the even one of two.\<close>

definition round_half_even :: "real \<Rightarrow> int" where
  "round_half_even y =
     (if y - of_int \<lfloor>y\<rfloor> < 1 / 2 then \<lfloor>y\<rfloor>
      else if 1 / 2 < y - of_int \<lfloor>y\<rfloor> then \<lfloor>y\<rfloor> + 1
      else if even \<lfloor>y\<rfloor> then \<lfloor>y\<rfloor> else \<lfloor>y\<rfloor> + 1)"

text \<open>
  The exponent \<open>e\<close> with \<open>2^e <= a < 2^(e+1)\<close>, searched from \<open>0\<close>; the first argument
  bounds the number of steps. Below \<open>2^-1022\<close> a double is subnormal and the exponent
  stays \<open>-1022\<close>; from \<open>2^1024\<close> on there is no double, so 1100 steps reach every
  exponent.
\<close>

fun binary_exponent :: "nat \<Rightarrow> real \<Rightarrow> int \<Rightarrow> int" where
  "binary_exponent 0 a e = e"
| "binary_exponent (Suc n) a e =
     (if a < 1 then binary_exponent n (2 * a) (e - 1)
      else if 2 \<le> a then binary_exponent n (a / 2) (e + 1)
      else e)"

definition double_exponent :: "real \<Rightarrow> int" where
  "double_exponent a =
     (if a < pow2 (- 1022) then - 1022 else binary_exponent 1100 a 0)"

text \<open>
  The double nearest to the real \<open>x\<close>: the significand has 53 bits, so doubles with
  the exponent \<open>e\<close> are the multiples of \<open>2^(e-52)\<close>; a result of \<open>2^1024\<close> or more is
  an infinity.
\<close>

definition round_double :: "real \<Rightarrow> jsnum" where
  "round_double x =
     (if x = 0 then Fin 0
      else if pow2 1024 \<le> \<bar>x\<bar> then (if 0 < x then PosInf else NegInf)
      else let q = pow2 (double_exponent \<bar>x\<bar> - 52);
               r = of_int (round_half_even (\<bar>x\<bar> / q)) * q
           in if pow2 1024 \<le> r then (if 0 < x then PosInf else NegInf)
              else Fin (if 0 < x then r else - r))"

text \<open>\<open>a - b\<close> and \<open>a / b\<close>. Every zero divisor is read as \<open>+0\<close>.\<close>

fun jsub :: "jsnum \<Rightarrow> jsnum \<Rightarrow> jsnum" where
  "jsub (Fin a) (Fin b) = round_double (a - b)"
| "jsub NaN _ = NaN"
| "jsub _ NaN = NaN"
| "jsub PosInf PosInf = NaN"
| "jsub NegInf NegInf = NaN"
| "jsub PosInf _ = PosInf"
| "jsub NegInf _ = NegInf"
| "jsub (Fin a) PosInf = NegInf"
| "jsub (Fin a) NegInf = PosInf"

fun jdiv :: "jsnum \<Rightarrow> jsnum \<Rightarrow> jsnum" where
  "jdiv (Fin a) (Fin b) =
     (if b = 0 then (if a = 0 then NaN else if 0 < a then PosInf else NegInf)
      else round_double (a / b))"
| "jdiv NaN _ = NaN"
| "jdiv _ NaN = NaN"
| "jdiv (Fin a) _ = Fin 0"
| "jdiv PosInf (Fin b) = (if 0 \<le> b then PosInf else NegInf)"
| "jdiv NegInf (Fin b) = (if 0 \<le> b then NegInf else PosInf)"
| "jdiv _ _ = NaN"

subsection \<open>Truth values\<close>

text \<open>
  The truth value of a number that may be \<open>undefined\<close> (\<open>None\<close>): \<open>undefined\<close>,
  \<open>0\<close> and \<open>NaN\<close> are falsy.
\<close>

fun truthy :: "jsnum option \<Rightarrow> bool" where
  "truthy None = False"
| "truthy (Some NaN) = False"
| "truthy (Some (Fin a)) = (a \<noteq> 0)"
| "truthy (Some _) = True"

text \<open>A string that may be \<open>undefined\<close>: \<open>undefined\<close> and \<open>''\<close> are falsy.\<close>

fun or_else :: "string option \<Rightarrow> string \<Rightarrow> string" where
  "or_else None d = d"
| "or_else (Some s) d = (if s = [] then d else s)"

subsection \<open>Exceptions\<close>

text \<open>
  A computation that may throw returns \<open>Inl\<close> of what it threw, or \<open>Inr\<close> of its
  value.
\<close>

datatype exn = RangeError | TypeError | ReferenceError

type_synonym 'a result = "exn + 'a"

text \<open>\<open>try { body } catch { handler }\<close>\<close>

definition try_catch :: "'a result \<Rightarrow> (exn \<Rightarrow> 'a result) \<Rightarrow> 'a result" where
  "try_catch body handler = (case body of Inl e \<Rightarrow> handler e | Inr v \<Rightarrow> Inr v)"

text \<open>Evaluating one throwing expression and then another with its value.\<close>

definition and_then :: "'a result \<Rightarrow> ('a \<Rightarrow> 'b result) \<Rightarrow> 'b result" where
  "and_then m f = (case m of Inl e \<Rightarrow> Inl e | Inr v \<Rightarrow> f v)"

section \<open>The options record\<close>

text \<open>
  \<open>FormatOptions\<close> (types.ts) is an object whose sixteen properties are all optional.
  An own property of an object is absent, present with the value \<open>undefined\<close>, or
  present with a value: the formatter's constructor writes properties whose value is
  \<open>undefined\<close>, object spread copies them, and \<open>format\<close> deletes them again, so the
  three states are kept apart.
\<close>

datatype 'a entry = Absent | Undefined | Val 'a

text \<open>Reading a property: \<open>None\<close> is \<open>undefined\<close>.\<close>

fun read :: "'a entry \<Rightarrow> 'a option" where
  "read (Val v) = Some v"
| "read _ = None"

datatype style_t = Style_decimal | Style_currency | Style_percent | Style_unit

datatype notation_t =
  Notation_standard | Notation_scientific | Notation_engineering | Notation_compact

datatype useGrouping_t =
  Grouping_bool bool | Grouping_always | Grouping_auto | Grouping_min2

datatype signDisplay_t = Sign_auto | Sign_never | Sign_always | Sign_exceptZero

datatype currencyDisplay_t =
  Currency_symbol | Currency_narrowSymbol | Currency_code | Currency_name

datatype currencySign_t = CurrencySign_standard | CurrencySign_accounting

datatype display_t = Display_long | Display_short | Display_narrow

datatype roundingMode_t =
  Rounding_ceil | Rounding_floor | Rounding_expand | Rounding_trunc
| Rounding_halfCeil | Rounding_halfFloor | Rounding_halfExpand | Rounding_halfTrunc
| Rounding_halfEven

record FormatOptions =
  locale' :: "string entry"
  currency :: "string entry"
  style :: "style_t entry"
  notation' :: "notation_t entry"
  unit :: "string entry"
  minimumFractionDigits :: "jsnum entry"
  maximumFractionDigits :: "jsnum entry"
  minimumSignificantDigits :: "jsnum entry"
  maximumSignificantDigits :: "jsnum entry"
  useGrouping :: "useGrouping_t entry"
  signDisplay :: "signDisplay_t entry"
  currencyDisplay :: "currencyDisplay_t entry"
  currencySign :: "currencySign_t entry"
  unitDisplay :: "display_t entry"
  roundingMode :: "roundingMode_t entry"
  compactDisplay :: "display_t entry"

definition empty_options :: FormatOptions where
  "empty_options =
     \<lparr>locale' = Absent, currency = Absent, style = Absent, notation' = Absent,
      unit = Absent, minimumFractionDigits = Absent, maximumFractionDigits = Absent,
      minimumSignificantDigits = Absent, maximumSignificantDigits = Absent,
      useGrouping = Absent, signDisplay = Absent, currencyDisplay = Absent,
      currencySign = Absent, unitDisplay = Absent, roundingMode = Absent,
      compactDisplay = Absent\<rparr>"

text \<open>
  Object spread \<open>{ ...a, ...b }\<close>: every own property of \<open>b\<close>, also one whose value is
  \<open>undefined\<close>, replaces that of \<open>a\<close>.
\<close>

definition over :: "'a entry \<Rightarrow> 'a entry \<Rightarrow> 'a entry" where
  "over a b = (case b of Absent \<Rightarrow> a | _ \<Rightarrow> b)"

definition spread :: "FormatOptions \<Rightarrow> FormatOptions \<Rightarrow> FormatOptions" where
  "spread a b =
     \<lparr>locale' = over (locale' a) (locale' b),
      currency = over (currency a) (currency b),
      style = over (style a) (style b),
      notation' = over (notation' a) (notation' b),
      unit = over (unit a) (unit b),
      minimumFractionDigits = over (minimumFractionDigits a) (minimumFractionDigits b),
      maximumFractionDigits = over (maximumFractionDigits a) (maximumFractionDigits b),
      minimumSignificantDigits =
        over (minimumSignificantDigits a) (minimumSignificantDigits b),
      maximumSignificantDigits =
        over (maximumSignificantDigits a) (maximumSignificantDigits b),
      useGrouping = over (useGrouping a) (useGrouping b),
      signDisplay = over (signDisplay a) (signDisplay b),
      currencyDisplay = over (currencyDisplay a) (currencyDisplay b),
      currencySign = over (currencySign a) (currencySign b),
      unitDisplay = over (unitDisplay a) (unitDisplay b),
      roundingMode = over (roundingMode a) (roundingMode b),
      compactDisplay = over (compactDisplay a) (compactDisplay b)\<rparr>"

text \<open>
  The loop \<open>Object.keys(o).forEach(key => { if (o[key] === undefined) delete o[key] })\<close>:
  every property whose value is \<open>undefined\<close> is deleted, the others stay.
\<close>

fun delete_if_undefined :: "'a entry \<Rightarrow> 'a entry" where
  "delete_if_undefined Undefined = Absent"
| "delete_if_undefined e = e"

definition delete_undefined :: "FormatOptions \<Rightarrow> FormatOptions" where
  "delete_undefined o' =
     \<lparr>locale' = delete_if_undefined (locale' o'),
      currency = delete_if_undefined (currency o'),
      style = delete_if_undefined (style o'),
      notation' = delete_if_undefined (notation' o'),
      unit = delete_if_undefined (unit o'),
      minimumFractionDigits = delete_if_undefined (minimumFractionDigits o'),
      maximumFractionDigits = delete_if_undefined (maximumFractionDigits o'),
      minimumSignificantDigits = delete_if_undefined (minimumSignificantDigits o'),
      maximumSignificantDigits = delete_if_undefined (maximumSignificantDigits o'),
      useGrouping = delete_if_undefined (useGrouping o'),
      signDisplay = delete_if_undefined (signDisplay o'),
      currencyDisplay = delete_if_undefined (currencyDisplay o'),
      currencySign = delete_if_undefined (currencySign o'),
      unitDisplay = delete_if_undefined (unitDisplay o'),
      roundingMode = delete_if_undefined (roundingMode o'),
      compactDisplay = delete_if_undefined (compactDisplay o')\<rparr>"

text \<open>\<open>a ?? d\<close>\<close>

fun nullish :: "'a option \<Rightarrow> 'a \<Rightarrow> 'a" where
  "nullish None d = d"
| "nullish (Some v) d = v"

section \<open>The host environment\<close>

text \<open>
  What the formatter calls and does not define: the \<open>Intl\<close> global with its
  \<open>NumberFormat\<close> class, \<open>navigator\<close>, the number methods \<open>toLocaleString\<close>,
  \<open>toFixed\<close> and \<open>toExponential\<close>, and the properties every object literal
  inherits. They are parameters of the model; each may throw. A host is a value, so
  its functions are deterministic.
\<close>

record NumberFormat_instance =
  nf_format :: "jsnum \<Rightarrow> string result"
  nf_formatRange :: "jsnum \<Rightarrow> jsnum \<Rightarrow> string result"

record NumberFormat_class =
  construct :: "string option \<Rightarrow> FormatOptions \<Rightarrow> NumberFormat_instance result"
  prototype_formatRange :: bool

record Intl_object =
  NumberFormat :: "NumberFormat_class option"

datatype navigator_t =
  Navigator_undeclared | Navigator_nullish | Navigator "string option"

record host =
  Intl :: "Intl_object option"
  navigator :: navigator_t
  toLocaleString :: "jsnum \<Rightarrow> string option \<Rightarrow> string result"
  toFixed :: "jsnum \<Rightarrow> jsnum option \<Rightarrow> string result"
  toExponential :: "jsnum \<Rightarrow> jsnum option \<Rightarrow> string result"
  Object_prototype :: "string \<Rightarrow> string option"

text \<open>
  \<open>prototype_formatRange\<close> says whether
  \<open>typeof Intl.NumberFormat.prototype.formatRange === 'function'\<close>;
  \<open>Object_prototype h k\<close> is what a template literal prints for the property \<open>k\<close>
  an object literal inherits (\<open>constructor\<close>, \<open>toString\<close>, ...), and \<open>None\<close> for
  every other \<open>k\<close>.

  \<open>typeof Intl === 'undefined' || !Intl.NumberFormat\<close> is the negation of:
\<close>

definition Intl_NumberFormat_exists :: "host \<Rightarrow> bool" where
  "Intl_NumberFormat_exists h =
     (case Intl h of None \<Rightarrow> False
      | Some i \<Rightarrow> (case NumberFormat i of None \<Rightarrow> False | Some c \<Rightarrow> True))"

text \<open>
  \<open>new Intl.NumberFormat(locale, options)\<close>: a ReferenceError without \<open>Intl\<close>, a
  TypeError when \<open>Intl.NumberFormat\<close> is no constructor.
\<close>

definition new_NumberFormat ::
  "host \<Rightarrow> string option \<Rightarrow> FormatOptions \<Rightarrow> NumberFormat_instance result" where
  "new_NumberFormat h locale options =
     (case Intl h of None \<Rightarrow> Inl ReferenceError
      | Some i \<Rightarrow>
          (case NumberFormat i of None \<Rightarrow> Inl TypeError
           | Some c \<Rightarrow> construct c locale options))"

text \<open>
  \<open>Math.pow(10, -6)\<close>: the double \<open>1e-6\<close>, which is \<open>4722366482869645 / 2^72\<close> and
  lies below the real \<open>10^-6\<close>.
\<close>

definition Math_pow_10_minus_6 :: jsnum where
  "Math_pow_10_minus_6 = Fin (4722366482869645 / 2 ^ 72)"

section \<open>IntlFormatter (src/formatter/intlFormatter.ts)\<close>

record IntlFormatter =
  defaultOptions :: FormatOptions

subsection \<open>The constructor\<close>

text \<open>
  \<open>navigator?.language\<close>: a ReferenceError when no \<open>navigator\<close> is declared,
  \<open>undefined\<close> when it is null or undefined.
\<close>

fun navigator_language :: "navigator_t \<Rightarrow> string option result" where
  "navigator_language Navigator_undeclared = Inl ReferenceError"
| "navigator_language Navigator_nullish = Inr None"
| "navigator_language (Navigator language) = Inr language"

definition library_defaults :: "string \<Rightarrow> FormatOptions" where
  "library_defaults language =
     \<lparr>locale' = Val language,
      currency = Undefined,
      style = Val Style_decimal,
      notation' = Val Notation_standard,
      unit = Undefined,
      minimumFractionDigits = Val (Fin 0),
      maximumFractionDigits = Val (Fin 2),
      minimumSignificantDigits = Undefined,
      maximumSignificantDigits = Undefined,
      useGrouping = Val (Grouping_bool True),
      signDisplay = Val Sign_auto,
      currencyDisplay = Val Currency_symbol,
      currencySign = Undefined,
      unitDisplay = Val Display_short,
      roundingMode = Val Rounding_halfEven,
      compactDisplay = Val Display_short\<rparr>"

definition constructor :: "host \<Rightarrow> FormatOptions \<Rightarrow> IntlFormatter result" where
  "constructor h options =
     and_then (navigator_language (navigator h)) (\<lambda>language.
       Inr \<lparr>defaultOptions =
              spread (library_defaults (or_else language ''en-US'')) options\<rparr>)"

subsection \<open>The capability probes\<close>

definition supportsNotation :: "host \<Rightarrow> bool" where
  "supportsNotation h =
     (case new_NumberFormat h (Some ''en'')
             (empty_options\<lparr>notation' := Val Notation_compact\<rparr>) of
        Inr f \<Rightarrow> True | Inl e \<Rightarrow> False)"

definition supportsRoundingMode :: "host \<Rightarrow> bool" where
  "supportsRoundingMode h =
     (case new_NumberFormat h (Some ''en'')
             (empty_options\<lparr>roundingMode := Val Rounding_halfEven\<rparr>) of
        Inr f \<Rightarrow> True | Inl e \<Rightarrow> False)"

definition supportsUnitFormat :: "host \<Rightarrow> bool" where
  "supportsUnitFormat h =
     (case new_NumberFormat h (Some ''en'')
             (empty_options\<lparr>style := Val Style_unit, unit := Val ''meter''\<rparr>) of
        Inr f \<Rightarrow> True | Inl e \<Rightarrow> False)"

definition supportsSignDisplay :: "host \<Rightarrow> bool" where
  "supportsSignDisplay h =
     (case new_NumberFormat h (Some ''en'')
             (empty_options\<lparr>signDisplay := Val Sign_always\<rparr>) of
        Inr f \<Rightarrow> True | Inl e \<Rightarrow> False)"

definition supportsFormatRange :: "host \<Rightarrow> bool" where
  "supportsFormatRange h =
     (case Intl h of None \<Rightarrow> False
      | Some i \<Rightarrow>
          (case NumberFormat i of None \<Rightarrow> False
           | Some c \<Rightarrow> prototype_formatRange c))"

subsection \<open>format\<close>

text \<open>
  \<open>const { locale = this.defaultOptions.locale, ...formatOptions } =
  { ...this.defaultOptions, ...options }\<close>: the default is taken when the merged
  \<open>locale\<close> is absent or \<open>undefined\<close>, and the rest object has every property but
  \<open>locale\<close>.
\<close>

definition merged_options :: "IntlFormatter \<Rightarrow> FormatOptions \<Rightarrow> FormatOptions" where
  "merged_options this options = spread (defaultOptions this) options"

definition merged_locale :: "IntlFormatter \<Rightarrow> FormatOptions \<Rightarrow> string option" where
  "merged_locale this options =
     (case read (locale' (merged_options this options)) of
        None \<Rightarrow> read (locale' (defaultOptions this))
      | Some l \<Rightarrow> Some l)"

definition merged_rest :: "IntlFormatter \<Rightarrow> FormatOptions \<Rightarrow> FormatOptions" where
  "merged_rest this options = (merged_options this options)\<lparr>locale' := Absent\<rparr>"

text \<open>
  Lines 43 to 65: the copy \<open>safeFormatOptions\<close> of \<open>formatOptions\<close>, the deletions
  after each probe, and the removal of the properties that are \<open>undefined\<close>.
\<close>

definition format_safeFormatOptions :: "host \<Rightarrow> FormatOptions \<Rightarrow> FormatOptions" where
  "format_safeFormatOptions h formatOptions =
     (let s0 = formatOptions;
          s1 = (if \<not> supportsNotation h
                then s0\<lparr>notation' := Absent, compactDisplay := Absent\<rparr> else s0);
          s2 = (if \<not> supportsRoundingMode h then s1\<lparr>roundingMode := Absent\<rparr> else s1);
          s3 = (if \<not> supportsSignDisplay h then s2\<lparr>signDisplay := Absent\<rparr> else s2);
          s4 = (if \<not> supportsUnitFormat h
                then s3\<lparr>unit := Absent, unitDisplay := Absent\<rparr> else s3)
      in delete_undefined s4)"

text \<open>Lines 37 to 67: what \<open>format\<close> does once the small-number branch is passed.\<close>

definition format_Intl ::
  "host \<Rightarrow> string option \<Rightarrow> FormatOptions \<Rightarrow> jsnum \<Rightarrow> string result" where
  "format_Intl h locale formatOptions value =
     (if \<not> Intl_NumberFormat_exists h then toLocaleString h value locale
      else and_then (new_NumberFormat h locale (format_safeFormatOptions h formatOptions))
             (\<lambda>formatter. nf_format formatter value))"

text \<open>The body of the \<open>try\<close> block.\<close>

definition format_try ::
  "host \<Rightarrow> IntlFormatter \<Rightarrow> jsnum \<Rightarrow> FormatOptions \<Rightarrow> string result" where
  "format_try h this value options =
     (let locale = merged_locale this options;
          formatOptions = merged_rest this options
      in if jlt (Math_abs value) Math_pow_10_minus_6
            \<and> truthy (read (minimumFractionDigits options))
         then toFixed h value (read (minimumFractionDigits options))
         else format_Intl h locale formatOptions value)"

text \<open>
  The \<open>catch\<close> block. Its \<open>console.error\<close> is left out here and written to the
  console in the store semantics below.
\<close>

definition format_catch :: "host \<Rightarrow> IntlFormatter \<Rightarrow> jsnum \<Rightarrow> exn \<Rightarrow> string result" where
  "format_catch h this value error =
     toLocaleString h value (read (locale' (defaultOptions this)))"

definition format ::
  "host \<Rightarrow> IntlFormatter \<Rightarrow> jsnum \<Rightarrow> FormatOptions \<Rightarrow> string result" where
  "format h this value options =
     try_catch (format_try h this value options) (format_catch h this value)"

subsection \<open>formatCurrency, formatPercent\<close>

definition formatCurrency ::
  "host \<Rightarrow> IntlFormatter \<Rightarrow> jsnum \<Rightarrow> FormatOptions \<Rightarrow> string result" where
  "formatCurrency h this value options =
     format h this value
       (options\<lparr>style := Val Style_currency,
          minimumFractionDigits :=
            Val (nullish (read (minimumFractionDigits options)) (Fin 2)),
          maximumFractionDigits :=
            Val (nullish (read (maximumFractionDigits options)) (Fin 2))\<rparr>)"

definition formatPercent ::
  "host \<Rightarrow> IntlFormatter \<Rightarrow> jsnum \<Rightarrow> FormatOptions \<Rightarrow> string result" where
  "formatPercent h this value options =
     format h this value
       (options\<lparr>style := Val Style_percent,
          minimumFractionDigits :=
            Val (nullish (read (minimumFractionDigits options)) (Fin 0)),
          maximumFractionDigits :=
            Val (nullish (read (maximumFractionDigits options)) (Fin 1))\<rparr>)"

subsection \<open>formatUnit\<close>

text \<open>
  Strings are byte strings: a character outside ASCII is written as its UTF-8 bytes
  (\<open>0xC2 0xB0\<close> is the degree sign).
\<close>

definition unit_long_forms :: "(string \<times> string) list" where
  "unit_long_forms =
     [(''meter'', ''meters''), (''m'', ''meters''),
      (''kilometer'', ''kilometers''), (''km'', ''kilometers''),
      (''celsius'', ''degrees Celsius''),
      (''fahrenheit'', ''degrees Fahrenheit''),
      (''gram'', ''grams''), (''g'', ''grams''),
      (''kilogram'', ''kilograms''), (''kg'', ''kilograms''),
      (''liter'', ''liters''), (''l'', ''liters''),
      (''milliliter'', ''milliliters''), (''ml'', ''milliliters''),
      (''second'', ''seconds''), (''s'', ''seconds''),
      (''minute'', ''minutes''), (''min'', ''minutes''),
      (''hour'', ''hours''), (''h'', ''hours''),
      (''day'', ''days''), (''d'', ''days''),
      (''week'', ''weeks''), (''w'', ''weeks''),
      (''month'', ''months''), (''mo'', ''months''),
      (''year'', ''years''), (''y'', ''years''),
      (''byte'', ''bytes''), (''b'', ''bytes''),
      (''kilobyte'', ''kilobytes''), (''kb'', ''kilobytes''),
      (''megabyte'', ''megabytes''), (''mb'', ''megabytes''),
      (''gigabyte'', ''gigabytes''), (''gb'', ''gigabytes'')]"

definition unit_narrow_forms :: "(string \<times> string) list" where
  "unit_narrow_forms =
     [(''meter'', ''m''), (''kilometer'', ''km''),
      (''celsius'', [CHR 0xC2, CHR 0xB0, CHR ''C'']),
      (''fahrenheit'', [CHR 0xC2, CHR 0xB0, CHR ''F'']),
      (''gram'', ''g''), (''kilogram'', ''kg''),
      (''liter'', ''l''), (''milliliter'', ''ml''),
      (''second'', ''s''), (''minute'', ''min''), (''hour'', ''h''),
      (''day'', ''d''), (''week'', ''w''), (''month'', ''mo''), (''year'', ''y''),
      (''byte'', ''b''), (''kilobyte'', ''kb''), (''megabyte'', ''mb''),
      (''gigabyte'', ''gb'')]"

text \<open>
  \<open>unitMap[unit] || unit\<close> on an object literal: an own property, else a property
  the literal inherits (as the template literal of \<open>formatUnit\<close> prints it), else
  \<open>unit\<close> itself. No value of the tables is empty.
\<close>

definition unitMap_lookup :: "host \<Rightarrow> (string \<times> string) list \<Rightarrow> string \<Rightarrow> string" where
  "unitMap_lookup h unitMap unit' =
     (case map_of unitMap unit' of
        Some s \<Rightarrow> s
      | None \<Rightarrow> (case Object_prototype h unit' of Some s \<Rightarrow> s | None \<Rightarrow> unit'))"

definition getUnitLongForm :: "host \<Rightarrow> string \<Rightarrow> string" where
  "getUnitLongForm h unit' = unitMap_lookup h unit_long_forms unit'"

definition getUnitNarrowForm :: "host \<Rightarrow> string \<Rightarrow> string" where
  "getUnitNarrowForm h unit' = unitMap_lookup h unit_narrow_forms unit'"

definition formatUnit ::
  "host \<Rightarrow> IntlFormatter \<Rightarrow> jsnum \<Rightarrow> string \<Rightarrow> FormatOptions \<Rightarrow> string result" where
  "formatUnit h this value unit' options =
     (if \<not> supportsUnitFormat h then
        and_then (format h this value options) (\<lambda>formattedValue.
          let unitDisplay' = nullish (read (unitDisplay options)) Display_short;
              unitMap = (\<lambda>d. case d of
                           Display_short \<Rightarrow> unit'
                         | Display_long \<Rightarrow> getUnitLongForm h unit'
                         | Display_narrow \<Rightarrow> getUnitNarrowForm h unit')
          in Inr (formattedValue @ '' '' @ unitMap unitDisplay'))
      else format h this value
             (options\<lparr>style := Val Style_unit,
                unit := Val unit',
                unitDisplay :=
                  Val (nullish (read (unitDisplay options)) Display_short)\<rparr>))"

subsection \<open>formatCustom\<close>

text \<open>The callback maps a string to a string and may throw.\<close>

definition formatCustom ::
  "host \<Rightarrow> IntlFormatter \<Rightarrow> jsnum \<Rightarrow> (string \<Rightarrow> string result) \<Rightarrow> FormatOptions
     \<Rightarrow> string result" where
  "formatCustom h this value formatFn options =
     and_then (format h this value options) formatFn"

subsection \<open>formatRange\<close>

text \<open>
  \<open>locale.toLowerCase().split('-')[0]\<close>. \<open>toLowerCase\<close> is modelled on the letters
  \<open>A\<close> to \<open>Z\<close>; every other byte stays (the locale reaches \<open>getLocaleSeparator\<close> only
  after \<open>Intl.NumberFormat\<close> has accepted it).
\<close>

definition toLowerCase :: "string \<Rightarrow> string" where
  "toLowerCase s =
     map (\<lambda>c. case map_of (zip ''ABCDEFGHIJKLMNOPQRSTUVWXYZ''
                                  ''abcdefghijklmnopqrstuvwxyz'') c of
                 Some l \<Rightarrow> l | None \<Rightarrow> c) s"

definition split_dash_first :: "string \<Rightarrow> string" where
  "split_dash_first s = takeWhile (\<lambda>c. c \<noteq> CHR ''-'') s"

text \<open>
  The four separators, in UTF-8: U+FF5E (fullwidth tilde), U+2014 (em dash), the Thai
  word between two spaces (U+0E16 U+0E36 U+0E07), and U+2013 (en dash).
\<close>

definition separator_cjk :: string where
  "separator_cjk = [CHR 0xEF, CHR 0xBD, CHR 0x9E]"

definition separator_rtl :: string where
  "separator_rtl = [CHR 0xE2, CHR 0x80, CHR 0x94]"

definition separator_thai :: string where
  "separator_thai =
     [CHR '' '', CHR 0xE0, CHR 0xB8, CHR 0x96, CHR 0xE0, CHR 0xB8, CHR 0xB6,
      CHR 0xE0, CHR 0xB8, CHR 0x87, CHR '' '']"

definition separator_default :: string where
  "separator_default = [CHR 0xE2, CHR 0x80, CHR 0x93]"

definition getLocaleSeparator :: "string \<Rightarrow> string" where
  "getLocaleSeparator locale =
     (let lang = split_dash_first (toLowerCase locale)
      in if lang = ''zh'' \<or> lang = ''ja'' \<or> lang = ''ko'' then separator_cjk
         else if lang = ''ar'' \<or> lang = ''fa'' \<or> lang = ''he'' then separator_rtl
         else if lang = ''th'' then separator_thai
         else separator_default)"

text \<open>
  Lines 125 to 141: the copy, the deletions after three probes, and the removal of
  the properties that are \<open>undefined\<close>.
\<close>

definition formatRange_safeFormatOptions :: "host \<Rightarrow> FormatOptions \<Rightarrow> FormatOptions" where
  "formatRange_safeFormatOptions h formatOptions =
     (let s0 = formatOptions;
          s1 = (if \<not> supportsNotation h
                then s0\<lparr>notation' := Absent, compactDisplay := Absent\<rparr> else s0);
          s2 = (if \<not> supportsRoundingMode h then s1\<lparr>roundingMode := Absent\<rparr> else s1);
          s3 = (if \<not> supportsSignDisplay h then s2\<lparr>signDisplay := Absent\<rparr> else s2)
      in delete_undefined s3)"

text \<open>Lines 143 to 150: the formatter is built, then used.\<close>

definition formatRange_Intl ::
  "host \<Rightarrow> string option \<Rightarrow> FormatOptions \<Rightarrow> jsnum \<Rightarrow> jsnum \<Rightarrow> string result" where
  "formatRange_Intl h locale formatOptions start end' =
     and_then (new_NumberFormat h locale (formatRange_safeFormatOptions h formatOptions))
       (\<lambda>formatter.
          if supportsFormatRange h then nf_formatRange formatter start end'
          else let separator = getLocaleSeparator (or_else locale ''en'')
               in and_then (nf_format formatter start) (\<lambda>a.
                  and_then (nf_format formatter end') (\<lambda>b.
                    Inr (a @ separator @ b))))"

definition formatRange_try ::
  "host \<Rightarrow> IntlFormatter \<Rightarrow> jsnum \<Rightarrow> jsnum \<Rightarrow> FormatOptions \<Rightarrow> string result" where
  "formatRange_try h this start end' options =
     (let locale = merged_locale this options;
          formatOptions = merged_rest this options
      in if \<not> Intl_NumberFormat_exists h
         then and_then (toLocaleString h start locale) (\<lambda>a.
              and_then (toLocaleString h end' locale) (\<lambda>b.
                Inr (a @ '' - '' @ b)))
         else formatRange_Intl h locale formatOptions start end')"

definition formatRange_catch ::
  "host \<Rightarrow> IntlFormatter \<Rightarrow> jsnum \<Rightarrow> jsnum \<Rightarrow> exn \<Rightarrow> string result" where
  "formatRange_catch h this start end' error =
     and_then (format h this start empty_options) (\<lambda>a.
     and_then (format h this end' empty_options) (\<lambda>b.
       Inr (a @ '' - '' @ b)))"

definition formatRange ::
  "host \<Rightarrow> IntlFormatter \<Rightarrow> jsnum \<Rightarrow> jsnum \<Rightarrow> FormatOptions \<Rightarrow> string result" where
  "formatRange h this start end' options =
     try_catch (formatRange_try h this start end' options)
       (formatRange_catch h this start end')"

subsection \<open>formatCompact\<close>

text \<open>
  The local function \<open>format(val, precision)\<close> of \<open>formatCompact\<close>, with the two
  destructured digits it closes over; \<open>None\<close> (\<open>undefined\<close>) takes the default \<open>1\<close>.
\<close>

definition formatCompact_format ::
  "host \<Rightarrow> jsnum option \<Rightarrow> jsnum option \<Rightarrow> jsnum \<Rightarrow> jsnum \<Rightarrow> string result" where
  "formatCompact_format h minimumFractionDigits' maximumFractionDigits' val precision =
     toFixed h val
       (Some (Math_min (Math_max (nullish minimumFractionDigits' (Fin 1)) precision)
                       (nullish maximumFractionDigits' (Fin 1))))"

definition formatCompact ::
  "host \<Rightarrow> IntlFormatter \<Rightarrow> jsnum \<Rightarrow> FormatOptions \<Rightarrow> string result" where
  "formatCompact h this value options =
     (if \<not> supportsNotation h then
        let absValue = Math_abs value;
            sign = (if jlt value (Fin 0) then ''-'' else []);
            fmt = formatCompact_format h (read (minimumFractionDigits options))
                    (read (maximumFractionDigits options))
        in if jge absValue (Fin (10 ^ 12))
           then and_then (fmt (jdiv absValue (Fin (10 ^ 12))) (Fin 1))
                  (\<lambda>s. Inr (sign @ s @ ''T''))
           else if jge absValue (Fin (10 ^ 9))
           then and_then (fmt (jdiv absValue (Fin (10 ^ 9))) (Fin 1))
                  (\<lambda>s. Inr (sign @ s @ ''B''))
           else if jge absValue (Fin (10 ^ 6))
           then and_then (fmt (jdiv absValue (Fin (10 ^ 6))) (Fin 1))
                  (\<lambda>s. Inr (sign @ s @ ''M''))
           else if jge absValue (Fin (10 ^ 3))
           then and_then (fmt (jdiv absValue (Fin (10 ^ 3))) (Fin 1))
                  (\<lambda>s. Inr (sign @ s @ ''K''))
           else format h this value options
      else format h this value
             (options\<lparr>notation' := Val Notation_compact,
                compactDisplay :=
                  Val (nullish (read (compactDisplay options)) Display_short)\<rparr>))"

subsection \<open>formatScientific\<close>

definition formatScientific_precision :: "FormatOptions \<Rightarrow> jsnum" where
  "formatScientific_precision options =
     (let minimumSignificantDigits' =
            nullish (read (minimumSignificantDigits options)) (Fin 3);
          maximumSignificantDigits' =
            nullish (read (maximumSignificantDigits options)) (Fin 5)
      in Math_min (Math_max (jsub minimumSignificantDigits' (Fin 1)) (Fin 0))
                  (jsub maximumSignificantDigits' (Fin 1)))"

definition formatScientific ::
  "host \<Rightarrow> IntlFormatter \<Rightarrow> jsnum \<Rightarrow> FormatOptions \<Rightarrow> string result" where
  "formatScientific h this value options =
     (if \<not> supportsNotation h
      then toExponential h value (Some (formatScientific_precision options))
      else format h this value
             (options\<lparr>notation' := Val Notation_scientific,
                minimumSignificantDigits :=
                  Val (nullish (read (minimumSignificantDigits options)) (Fin 3)),
                maximumSignificantDigits :=
                  Val (nullish (read (maximumSignificantDigits options)) (Fin 5))\<rparr>))"

section \<open>Store semantics\<close>

text \<open>
  The functions above take and return options objects as values. The source handles
  them by reference: \<open>this.defaultOptions\<close> and the caller's \<open>options\<close> are
  references, a spread allocates a new object, and \<open>delete\<close> writes to the object a
  reference points to. This section repeats every method with the store written out,
  so that what a call leaves behind can be stated. The store holds the options
  objects (no other object is written to by the formatter) and what
  \<open>console.error\<close> has printed.
\<close>

type_synonym ref = nat

record store =
  objects :: "ref \<Rightarrow> FormatOptions"
  next_ref :: ref
  console :: "exn list"

text \<open>An object literal: a new object at the next free address.\<close>

definition new_object :: "FormatOptions \<Rightarrow> store \<Rightarrow> ref \<times> store" where
  "new_object obj s =
     (next_ref s,
      s\<lparr>objects := (objects s)(next_ref s := obj), next_ref := Suc (next_ref s)\<rparr>)"

text \<open>A write to the object at \<open>r\<close> (the \<open>delete\<close> statements).\<close>

definition update_object :: "ref \<Rightarrow> (FormatOptions \<Rightarrow> FormatOptions) \<Rightarrow> store \<Rightarrow> store" where
  "update_object r f s = s\<lparr>objects := (objects s)(r := f (objects s r))\<rparr>"

definition console_error :: "exn \<Rightarrow> store \<Rightarrow> store" where
  "console_error error s = s\<lparr>console := console s @ [error]\<rparr>"

text \<open>The default parameter \<open>options = {}\<close>: \<open>None\<close> is an argument left out.\<close>

definition default_parameter :: "ref option \<Rightarrow> store \<Rightarrow> ref \<times> store" where
  "default_parameter options s =
     (case options of None \<Rightarrow> new_object empty_options s | Some r \<Rightarrow> (r, s))"

text \<open>The instance: its field \<open>defaultOptions\<close> holds a reference.\<close>

record IntlFormatter_object =
  defaultOptions_ref :: ref

definition constructor_st ::
  "host \<Rightarrow> ref option \<Rightarrow> store \<Rightarrow> IntlFormatter_object result \<times> store" where
  "constructor_st h options s0 =
     (let (options, s1) = default_parameter options s0
      in case navigator_language (navigator h) of
           Inl e \<Rightarrow> (Inl e, s1)
         | Inr language \<Rightarrow>
             let (d, s2) = new_object
                             (spread (library_defaults (or_else language ''en-US''))
                                (objects s1 options)) s1
             in (Inr \<lparr>defaultOptions_ref = d\<rparr>, s2))"

text \<open>
  The destructuring of \<open>format\<close> and \<open>formatRange\<close>: the merged object and the rest
  object are new objects.
\<close>

definition merge_st ::
  "IntlFormatter_object \<Rightarrow> ref \<Rightarrow> store \<Rightarrow> (string option \<times> ref) \<times> store" where
  "merge_st this options s0 =
     (let (merged, s1) = new_object
                           (spread (objects s0 (defaultOptions_ref this))
                              (objects s0 options)) s0;
          locale = (case read (locale' (objects s1 merged)) of
                      None \<Rightarrow> read (locale' (objects s1 (defaultOptions_ref this)))
                    | Some l \<Rightarrow> Some l);
          (formatOptions, s2) = new_object ((objects s1 merged)\<lparr>locale' := Absent\<rparr>) s1
      in ((locale, formatOptions), s2))"

text \<open>Lines 43 to 65 of \<open>format\<close>: the copy is a new object, the deletions write to it.\<close>

definition format_safeFormatOptions_st :: "host \<Rightarrow> ref \<Rightarrow> store \<Rightarrow> ref \<times> store" where
  "format_safeFormatOptions_st h formatOptions s0 =
     (let (safeFormatOptions, s1) = new_object (objects s0 formatOptions) s0;
          s2 = (if \<not> supportsNotation h
                then update_object safeFormatOptions
                       (\<lambda>obj. obj\<lparr>notation' := Absent, compactDisplay := Absent\<rparr>) s1
                else s1);
          s3 = (if \<not> supportsRoundingMode h
                then update_object safeFormatOptions (\<lambda>obj. obj\<lparr>roundingMode := Absent\<rparr>) s2
                else s2);
          s4 = (if \<not> supportsSignDisplay h
                then update_object safeFormatOptions (\<lambda>obj. obj\<lparr>signDisplay := Absent\<rparr>) s3
                else s3);
          s5 = (if \<not> supportsUnitFormat h
                then update_object safeFormatOptions
                       (\<lambda>obj. obj\<lparr>unit := Absent, unitDisplay := Absent\<rparr>) s4
                else s4)
      in (safeFormatOptions, update_object safeFormatOptions delete_undefined s5))"

definition format_try_st ::
  "host \<Rightarrow> IntlFormatter_object \<Rightarrow> jsnum \<Rightarrow> ref \<Rightarrow> store \<Rightarrow> string result \<times> store" where
  "format_try_st h this value options s0 =
     (let ((locale, formatOptions), s1) = merge_st this options s0
      in if jlt (Math_abs value) Math_pow_10_minus_6
            \<and> truthy (read (minimumFractionDigits (objects s1 options)))
         then (toFixed h value (read (minimumFractionDigits (objects s1 options))), s1)
         else if \<not> Intl_NumberFormat_exists h then (toLocaleString h value locale, s1)
         else let (safeFormatOptions, s2) = format_safeFormatOptions_st h formatOptions s1
              in (and_then (new_NumberFormat h locale (objects s2 safeFormatOptions))
                    (\<lambda>formatter. nf_format formatter value), s2))"

definition format_st ::
  "host \<Rightarrow> IntlFormatter_object \<Rightarrow> jsnum \<Rightarrow> ref option \<Rightarrow> store
     \<Rightarrow> string result \<times> store" where
  "format_st h this value options s0 =
     (let (options, s1) = default_parameter options s0
      in case format_try_st h this value options s1 of
           (Inr formatted, s2) \<Rightarrow> (Inr formatted, s2)
         | (Inl error, s2) \<Rightarrow>
             (let s3 = console_error error s2
              in (toLocaleString h value
                    (read (locale' (objects s3 (defaultOptions_ref this)))), s3)))"

definition formatCurrency_st ::
  "host \<Rightarrow> IntlFormatter_object \<Rightarrow> jsnum \<Rightarrow> ref option \<Rightarrow> store
     \<Rightarrow> string result \<times> store" where
  "formatCurrency_st h this value options s0 =
     (let (options, s1) = default_parameter options s0;
          (argument, s2) =
            new_object
              ((objects s1 options)
                 \<lparr>style := Val Style_currency,
                  minimumFractionDigits :=
                    Val (nullish (read (minimumFractionDigits (objects s1 options))) (Fin 2)),
                  maximumFractionDigits :=
                    Val (nullish (read (maximumFractionDigits (objects s1 options))) (Fin 2))\<rparr>)
              s1
      in format_st h this value (Some argument) s2)"

definition formatPercent_st ::
  "host \<Rightarrow> IntlFormatter_object \<Rightarrow> jsnum \<Rightarrow> ref option \<Rightarrow> store
     \<Rightarrow> string result \<times> store" where
  "formatPercent_st h this value options s0 =
     (let (options, s1) = default_parameter options s0;
          (argument, s2) =
            new_object
              ((objects s1 options)
                 \<lparr>style := Val Style_percent,
                  minimumFractionDigits :=
                    Val (nullish (read (minimumFractionDigits (objects s1 options))) (Fin 0)),
                  maximumFractionDigits :=
                    Val (nullish (read (maximumFractionDigits (objects s1 options))) (Fin 1))\<rparr>)
              s1
      in format_st h this value (Some argument) s2)"

definition formatUnit_st ::
  "host \<Rightarrow> IntlFormatter_object \<Rightarrow> jsnum \<Rightarrow> string \<Rightarrow> ref option \<Rightarrow> store
     \<Rightarrow> string result \<times> store" where
  "formatUnit_st h this value unit' options s0 =
     (let (options, s1) = default_parameter options s0
      in if \<not> supportsUnitFormat h then
           let (formatted, s2) = format_st h this value (Some options) s1
           in (and_then formatted (\<lambda>formattedValue.
                 let unitDisplay' =
                       nullish (read (unitDisplay (objects s2 options))) Display_short;
                     unitMap = (\<lambda>d. case d of
                                  Display_short \<Rightarrow> unit'
                                | Display_long \<Rightarrow> getUnitLongForm h unit'
                                | Display_narrow \<Rightarrow> getUnitNarrowForm h unit')
                 in Inr (formattedValue @ '' '' @ unitMap unitDisplay')), s2)
         else
           let (argument, s2) =
                 new_object
                   ((objects s1 options)
                      \<lparr>style := Val Style_unit,
                       unit := Val unit',
                       unitDisplay :=
                         Val (nullish (read (unitDisplay (objects s1 options)))
                                Display_short)\<rparr>)
                   s1
           in format_st h this value (Some argument) s2)"

definition formatCustom_st ::
  "host \<Rightarrow> IntlFormatter_object \<Rightarrow> jsnum \<Rightarrow> (string \<Rightarrow> string result) \<Rightarrow> ref option
     \<Rightarrow> store \<Rightarrow> string result \<times> store" where
  "formatCustom_st h this value formatFn options s0 =
     (let (options, s1) = default_parameter options s0;
          (formatted, s2) = format_st h this value (Some options) s1
      in (and_then formatted formatFn, s2))"

text \<open>Lines 125 to 141 of \<open>formatRange\<close>.\<close>

definition formatRange_safeFormatOptions_st :: "host \<Rightarrow> ref \<Rightarrow> store \<Rightarrow> ref \<times> store" where
  "formatRange_safeFormatOptions_st h formatOptions s0 =
     (let (safeFormatOptions, s1) = new_object (objects s0 formatOptions) s0;
          s2 = (if \<not> supportsNotation h
                then update_object safeFormatOptions
                       (\<lambda>obj. obj\<lparr>notation' := Absent, compactDisplay := Absent\<rparr>) s1
                else s1);
          s3 = (if \<not> supportsRoundingMode h
                then update_object safeFormatOptions (\<lambda>obj. obj\<lparr>roundingMode := Absent\<rparr>) s2
                else s2);
          s4 = (if \<not> supportsSignDisplay h
                then update_object safeFormatOptions (\<lambda>obj. obj\<lparr>signDisplay := Absent\<rparr>) s3
                else s3)
      in (safeFormatOptions, update_object safeFormatOptions delete_undefined s4))"

definition formatRange_try_st ::
  "host \<Rightarrow> IntlFormatter_object \<Rightarrow> jsnum \<Rightarrow> jsnum \<Rightarrow> ref \<Rightarrow> store
     \<Rightarrow> string result \<times> store" where
  "formatRange_try_st h this start end' options s0 =
     (let ((locale, formatOptions), s1) = merge_st this options s0
      in if \<not> Intl_NumberFormat_exists h
         then (and_then (toLocaleString h start locale) (\<lambda>a.
               and_then (toLocaleString h end' locale) (\<lambda>b.
                 Inr (a @ '' - '' @ b))), s1)
         else let (safeFormatOptions, s2) =
                    formatRange_safeFormatOptions_st h formatOptions s1
              in (and_then (new_NumberFormat h locale (objects s2 safeFormatOptions))
                    (\<lambda>formatter.
                       if supportsFormatRange h then nf_formatRange formatter start end'
                       else let separator = getLocaleSeparator (or_else locale ''en'')
                            in and_then (nf_format formatter start) (\<lambda>a.
                               and_then (nf_format formatter end') (\<lambda>b.
                                 Inr (a @ separator @ b)))), s2))"

definition formatRange_st ::
  "host \<Rightarrow> IntlFormatter_object \<Rightarrow> jsnum \<Rightarrow> jsnum \<Rightarrow> ref option \<Rightarrow> store
     \<Rightarrow> string result \<times> store" where
  "formatRange_st h this start end' options s0 =
     (let (options, s1) = default_parameter options s0
      in case formatRange_try_st h this start end' options s1 of
           (Inr formatted, s2) \<Rightarrow> (Inr formatted, s2)
         | (Inl error, s2) \<Rightarrow>
             (let s3 = console_error error s2;
                  (a, s4) = format_st h this start None s3
              in case a of
                   Inl e \<Rightarrow> (Inl e, s4)
                 | Inr a' \<Rightarrow>
                     (let (b, s5) = format_st h this end' None s4
                      in (and_then b (\<lambda>b'. Inr (a' @ '' - '' @ b')), s5))))"

definition formatCompact_st ::
  "host \<Rightarrow> IntlFormatter_object \<Rightarrow> jsnum \<Rightarrow> ref option \<Rightarrow> store
     \<Rightarrow> string result \<times> store" where
  "formatCompact_st h this value options s0 =
     (let (options, s1) = default_parameter options s0
      in if \<not> supportsNotation h then
           let absValue = Math_abs value;
               sign = (if jlt value (Fin 0) then ''-'' else []);
               fmt = formatCompact_format h
                       (read (minimumFractionDigits (objects s1 options)))
                       (read (maximumFractionDigits (objects s1 options)))
           in if jge absValue (Fin (10 ^ 12))
              then (and_then (fmt (jdiv absValue (Fin (10 ^ 12))) (Fin 1))
                      (\<lambda>s. Inr (sign @ s @ ''T'')), s1)
              else if jge absValue (Fin (10 ^ 9))
              then (and_then (fmt (jdiv absValue (Fin (10 ^ 9))) (Fin 1))
                      (\<lambda>s. Inr (sign @ s @ ''B'')), s1)
              else if jge absValue (Fin (10 ^ 6))
              then (and_then (fmt (jdiv absValue (Fin (10 ^ 6))) (Fin 1))
                      (\<lambda>s. Inr (sign @ s @ ''M'')), s1)
              else if jge absValue (Fin (10 ^ 3))
              then (and_then (fmt (jdiv absValue (Fin (10 ^ 3))) (Fin 1))
                      (\<lambda>s. Inr (sign @ s @ ''K'')), s1)
              else format_st h this value (Some options) s1
         else
           let (argument, s2) =
                 new_object
                   ((objects s1 options)
                      \<lparr>notation' := Val Notation_compact,
                       compactDisplay :=
                         Val (nullish (read (compactDisplay (objects s1 options)))
                                Display_short)\<rparr>)
                   s1
           in format_st h this value (Some argument) s2)"

definition formatScientific_st ::
  "host \<Rightarrow> IntlFormatter_object \<Rightarrow> jsnum \<Rightarrow> ref option \<Rightarrow> store
     \<Rightarrow> string result \<times> store" where
  "formatScientific_st h this value options s0 =
     (let (options, s1) = default_parameter options s0
      in if \<not> supportsNotation h
         then (toExponential h value
                 (Some (formatScientific_precision (objects s1 options))), s1)
         else
           let (argument, s2) =
                 new_object
                   ((objects s1 options)
                      \<lparr>notation' := Val Notation_scientific,
                       minimumSignificantDigits :=
                         Val (nullish (read (minimumSignificantDigits (objects s1 options)))
                                (Fin 3)),
                       maximumSignificantDigits :=
                         Val (nullish (read (maximumSignificantDigits (objects s1 options)))
                                (Fin 5))\<rparr>)
                   s1
           in format_st h this value (Some argument) s2)"

subsection \<open>Calls and call sequences\<close>

text \<open>
  A call of one of the eight public formatting methods, with its arguments; the
  options argument is a reference, or left out. The callback of \<open>formatCustom\<close> is a
  function from strings to strings that may throw.
\<close>

datatype call =
  Format jsnum "ref option"
| FormatCurrency jsnum "ref option"
| FormatPercent jsnum "ref option"
| FormatUnit jsnum string "ref option"
| FormatCustom jsnum "string \<Rightarrow> string result" "ref option"
| FormatRange jsnum jsnum "ref option"
| FormatCompact jsnum "ref option"
| FormatScientific jsnum "ref option"

fun invoke ::
  "host \<Rightarrow> IntlFormatter_object \<Rightarrow> call \<Rightarrow> store \<Rightarrow> string result \<times> store" where
  "invoke h this (Format v options) s = format_st h this v options s"
| "invoke h this (FormatCurrency v options) s = formatCurrency_st h this v options s"
| "invoke h this (FormatPercent v options) s = formatPercent_st h this v options s"
| "invoke h this (FormatUnit v u options) s = formatUnit_st h this v u options s"
| "invoke h this (FormatCustom v f options) s = formatCustom_st h this v f options s"
| "invoke h this (FormatRange a b options) s = formatRange_st h this a b options s"
| "invoke h this (FormatCompact v options) s = formatCompact_st h this v options s"
| "invoke h this (FormatScientific v options) s = formatScientific_st h this v options s"

text \<open>
  What a caller does with one instance, step by step: it calls a method, or it
  writes an object literal (to pass it as options later on). A call that throws
  leaves the store it had reached, and the caller goes on.
\<close>

datatype action = Call call | New_options FormatOptions

fun run ::
  "host \<Rightarrow> IntlFormatter_object \<Rightarrow> action list \<Rightarrow> store
     \<Rightarrow> string result list \<times> store" where
  "run h this [] s = ([], s)"
| "run h this (Call c # as) s =
     (let (r, s1) = invoke h this c s;
          (rs, s2) = run h this as s1
      in (r # rs, s2))"
| "run h this (New_options obj # as) s = run h this as (snd (new_object obj s))"

fun call_options :: "call \<Rightarrow> ref option" where
  "call_options (Format v options) = options"
| "call_options (FormatCurrency v options) = options"
| "call_options (FormatPercent v options) = options"
| "call_options (FormatUnit v u options) = options"
| "call_options (FormatCustom v f options) = options"
| "call_options (FormatRange a b options) = options"
| "call_options (FormatCompact v options) = options"
| "call_options (FormatScientific v options) = options"

text \<open>
  A reference is allocated when it is below the next free address. An options
  argument is well-formed in a store when it is left out or allocated there.
\<close>

definition allocated :: "store \<Rightarrow> ref \<Rightarrow> bool" where
  "allocated s r = (r < next_ref s)"

definition argument_ok :: "store \<Rightarrow> ref option \<Rightarrow> bool" where
  "argument_ok s options = (case options of None \<Rightarrow> True | Some r \<Rightarrow> allocated s r)"

definition call_ok :: "store \<Rightarrow> call \<Rightarrow> bool" where
  "call_ok s c = argument_ok s (call_options c)"

text \<open>
  \<open>extends s s'\<close>: every object allocated in \<open>s\<close> is the same object in \<open>s'\<close>, which
  may hold more objects.
\<close>

definition extends :: "store \<Rightarrow> store \<Rightarrow> bool" where
  "extends s s' =
     (next_ref s \<le> next_ref s' \<and> (\<forall>r. r < next_ref s \<longrightarrow> objects s' r = objects s r))"

text \<open>
  A sequence of actions is well-formed when every call in it is well-formed in the
  store it is made in.
\<close>

fun run_ok :: "host \<Rightarrow> IntlFormatter_object \<Rightarrow> action list \<Rightarrow> store \<Rightarrow> bool" where
  "run_ok h this [] s = True"
| "run_ok h this (Call c # as) s =
     (call_ok s c \<and> run_ok h this as (snd (invoke h this c s)))"
| "run_ok h this (New_options obj # as) s = run_ok h this as (snd (new_object obj s))"

text \<open>
  The values behind the references: the instance with its options record, and the
  options a call is given (\<open>{}\<close> when the argument is left out).
\<close>

definition instance_at :: "store \<Rightarrow> IntlFormatter_object \<Rightarrow> IntlFormatter" where
  "instance_at s this = \<lparr>defaultOptions = objects s (defaultOptions_ref this)\<rparr>"

definition argument_at :: "store \<Rightarrow> ref option \<Rightarrow> FormatOptions" where
  "argument_at s options =
     (case options of None \<Rightarrow> empty_options | Some r \<Rightarrow> objects s r)"

text \<open>The same call in the value semantics, on the options it is given.\<close>

fun invoke_value :: "host \<Rightarrow> IntlFormatter \<Rightarrow> call \<Rightarrow> FormatOptions \<Rightarrow> string result" where
  "invoke_value h this (Format v r) options = format h this v options"
| "invoke_value h this (FormatCurrency v r) options = formatCurrency h this v options"
| "invoke_value h this (FormatPercent v r) options = formatPercent h this v options"
| "invoke_value h this (FormatUnit v u r) options = formatUnit h this v u options"
| "invoke_value h this (FormatCustom v f r) options = formatCustom h this v f options"
| "invoke_value h this (FormatRange a b r) options = formatRange h this a b options"
| "invoke_value h this (FormatCompact v r) options = formatCompact h this v options"
| "invoke_value h this (FormatScientific v r) options = formatScientific h this v options"

section \<open>Hosts for evaluation\<close>

text \<open>
  Three concrete hosts, on which the theorems below are evaluated. Their \<open>toFixed\<close>
  and \<open>toExponential\<close> follow ECMA-262 digit by digit, so that an output shows the
  number and the digit count the formatter has passed. What depends on locale data
  (\<open>toLocaleString\<close>, the methods of a \<open>NumberFormat\<close> instance) is answered by a
  token that names the primitive. The hosts throw where ECMA-262 and ECMA-402 say so:
  \<open>toFixed\<close> and \<open>toExponential\<close> throw a RangeError for a digit count that,
  truncated, is not in \<open>0..100\<close> (\<open>toExponential\<close> only for a finite number);
  \<open>Intl.NumberFormat\<close> throws a TypeError for the style \<open>currency\<close> without a
  currency and for the style \<open>unit\<close> without a unit; and where \<open>Intl\<close> exists, a
  language tag that is empty or has a character other than a letter, a digit or \<open>-\<close>
  (as \<open>en_US\<close> has) is a RangeError, for \<open>Intl.NumberFormat\<close> and for
  \<open>toLocaleString\<close>. The hosts are evaluated on such tags and on well-formed ones.
\<close>

text \<open>\<open>ToIntegerOrInfinity\<close> of an argument: \<open>undefined\<close> and \<open>NaN\<close> are \<open>0\<close>.\<close>

fun ToIntegerOrInfinity :: "jsnum option \<Rightarrow> jsnum" where
  "ToIntegerOrInfinity None = Fin 0"
| "ToIntegerOrInfinity (Some NaN) = Fin 0"
| "ToIntegerOrInfinity (Some (Fin d)) =
     Fin (of_int (if 0 \<le> d then \<lfloor>d\<rfloor> else \<lceil>d\<rceil>))"
| "ToIntegerOrInfinity (Some PosInf) = PosInf"
| "ToIntegerOrInfinity (Some NegInf) = NegInf"

text \<open>The decimal digits of a natural number.\<close>

definition digit :: "nat \<Rightarrow> char" where
  "digit d = ''0123456789'' ! d"

fun decimal :: "nat \<Rightarrow> string" where
  "decimal n = (if n < 10 then [digit n] else decimal (n div 10) @ [digit (n mod 10)])"

declare decimal.simps [simp del]

fun render_nonfinite :: "jsnum \<Rightarrow> string \<Rightarrow> string" where
  "render_nonfinite NaN token = ''NaN''"
| "render_nonfinite PosInf token = ''Infinity''"
| "render_nonfinite NegInf token = ''-Infinity''"
| "render_nonfinite (Fin x) token = token"

text \<open>
  \<open>Number.prototype.toFixed\<close>, steps 10 and 11, for \<open>0 <= x < 10^21\<close> and \<open>f\<close>
  digits: the integer \<open>n\<close> nearest to \<open>x * 10^f\<close> (the larger of two), written with at
  least \<open>f + 1\<close> digits and a point before the last \<open>f\<close>.
\<close>

definition fixed_digits :: "real \<Rightarrow> nat \<Rightarrow> string" where
  "fixed_digits x f =
     (let m = decimal (nat \<lfloor>x * 10 ^ f + 1 / 2\<rfloor>);
          m' = replicate (Suc f - length m) CHR ''0'' @ m
      in if f = 0 then m
         else take (length m' - f) m' @ ''.'' @ drop (length m' - f) m')"

text \<open>
  From \<open>10^21\<close> on \<open>toFixed\<close> prints \<open>Number::toString\<close>, which these hosts do not
  spell out (a token).
\<close>

definition host_toFixed :: "jsnum \<Rightarrow> jsnum option \<Rightarrow> string result" where
  "host_toFixed x fractionDigits =
     (case ToIntegerOrInfinity fractionDigits of
        Fin f \<Rightarrow>
          (if f < 0 \<or> 100 < f then Inl RangeError
           else case x of
                  Fin v \<Rightarrow>
                    (if 10 ^ 21 \<le> \<bar>v\<bar> then Inr ''Number::toString''
                     else Inr ((if v < 0 then ''-'' else [])
                               @ fixed_digits \<bar>v\<bar> (nat \<lfloor>f\<rfloor>)))
                | _ \<Rightarrow> Inr (render_nonfinite x []))
      | _ \<Rightarrow> Inl RangeError)"

text \<open>
  \<open>Number.prototype.toExponential\<close>, steps 9 to 12, for \<open>0 <= x\<close> and \<open>f\<close> digits
  after the point: \<open>e\<close> and \<open>n\<close> with \<open>10^f <= n < 10^(f+1)\<close> and \<open>n * 10^(e-f)\<close>
  nearest to \<open>x\<close> (the larger of two). The decimal exponent is searched from \<open>0\<close> in
  at most 400 steps, which reaches that of every double.
\<close>

definition pow10 :: "int \<Rightarrow> real" where
  "pow10 e = (if 0 \<le> e then 10 ^ nat e else 1 / 10 ^ nat (- e))"

fun decimal_exponent :: "nat \<Rightarrow> real \<Rightarrow> int \<Rightarrow> int" where
  "decimal_exponent 0 a e = e"
| "decimal_exponent (Suc n) a e =
     (if a < 1 then decimal_exponent n (10 * a) (e - 1)
      else if 10 \<le> a then decimal_exponent n (a / 10) (e + 1)
      else e)"

definition exponential_digits :: "real \<Rightarrow> nat \<Rightarrow> string" where
  "exponential_digits x f =
     (let e0 = decimal_exponent 400 x 0;
          n0 = nat \<lfloor>x / pow10 (e0 - int f) + 1 / 2\<rfloor>;
          e = (if x = 0 then 0 else if n0 = 10 ^ Suc f then e0 + 1 else e0);
          m = (if x = 0 then replicate (Suc f) CHR ''0''
               else if n0 = 10 ^ Suc f then decimal (10 ^ f) else decimal n0)
      in (if f = 0 then m else take 1 m @ ''.'' @ drop 1 m)
         @ ''e'' @ (if 0 \<le> e then ''+'' else ''-'') @ decimal (nat \<bar>e\<bar>))"

text \<open>
  Without a digit count \<open>toExponential\<close> prints as many digits as the number needs,
  which these hosts do not spell out (a token); the formatter always passes one.
\<close>

definition host_toExponential :: "jsnum \<Rightarrow> jsnum option \<Rightarrow> string result" where
  "host_toExponential x fractionDigits =
     (case x of
        Fin v \<Rightarrow>
          (case ToIntegerOrInfinity fractionDigits of
             Fin f \<Rightarrow>
               (if f < 0 \<or> 100 < f then Inl RangeError
                else if fractionDigits = None then Inr ''toExponential''
                else Inr ((if v < 0 then ''-'' else [])
                          @ exponential_digits \<bar>v\<bar> (nat \<lfloor>f\<rfloor>)))
           | _ \<Rightarrow> Inl RangeError)
      | _ \<Rightarrow> Inr (render_nonfinite x []))"

definition structurally_valid :: "string option \<Rightarrow> bool" where
  "structurally_valid locales =
     (case locales of
        None \<Rightarrow> True
      | Some tag \<Rightarrow>
          tag \<noteq> [] \<and>
          list_all
            (\<lambda>c. c \<in> set
               ''abcdefghijklmnopqrstuvwxyzABCDEFGHIJKLMNOPQRSTUVWXYZ0123456789-'')
            tag)"

definition Intl_toLocaleString :: "jsnum \<Rightarrow> string option \<Rightarrow> string result" where
  "Intl_toLocaleString x locales =
     (if structurally_valid locales then Inr (render_nonfinite x ''toLocaleString'')
      else Inl RangeError)"

definition host_Object_prototype :: "string \<Rightarrow> string option" where
  "host_Object_prototype k =
     (if k \<in> set [''constructor'', ''toString'', ''toLocaleString'', ''valueOf'',
                    ''hasOwnProperty'', ''isPrototypeOf'', ''propertyIsEnumerable'']
      then Some ''function'' else if k = ''__proto__'' then Some ''[object Object]''
      else None)"

text \<open>
  A host without \<open>Intl\<close> (an engine built without internationalisation); its
  \<open>toLocaleString\<close> does not read its argument.
\<close>

definition host_without_Intl :: host where
  "host_without_Intl =
     \<lparr>Intl = None,
      navigator = Navigator (Some ''en-US''),
      toLocaleString = (\<lambda>x locales. Inr (render_nonfinite x ''toLocaleString'')),
      toFixed = host_toFixed,
      toExponential = host_toExponential,
      Object_prototype = host_Object_prototype\<rparr>"

text \<open>
  A formatter instance of a host whose \<open>NumberFormat\<close> has no \<open>formatRange\<close>:
  calling the missing method is a TypeError.
\<close>

definition instance_without_formatRange :: NumberFormat_instance where
  "instance_without_formatRange =
     \<lparr>nf_format = (\<lambda>x. Inr (render_nonfinite x ''format'')),
      nf_formatRange = (\<lambda>a b. Inl TypeError)\<rparr>"

definition required_missing :: "FormatOptions \<Rightarrow> bool" where
  "required_missing options =
     ((read (style options) = Some Style_currency \<and> read (currency options) = None)
      \<or> (read (style options) = Some Style_unit \<and> read (unit options) = None))"

text \<open>
  An ES2018 host: \<open>unit\<close> is no style yet (a RangeError), and the options it does not
  know (\<open>notation\<close>, \<open>signDisplay\<close>, \<open>roundingMode\<close>, \<open>unit\<close>) are not read.
\<close>

definition es2018_construct ::
  "string option \<Rightarrow> FormatOptions \<Rightarrow> NumberFormat_instance result" where
  "es2018_construct locales options =
     (if \<not> structurally_valid locales then Inl RangeError
      else if read (style options) = Some Style_unit then Inl RangeError
      else if required_missing options then Inl TypeError
      else Inr instance_without_formatRange)"

definition es2018_host :: host where
  "es2018_host =
     \<lparr>Intl = Some \<lparr>NumberFormat =
               Some \<lparr>construct = es2018_construct, prototype_formatRange = False\<rparr>\<rparr>,
      navigator = Navigator (Some ''en-US''),
      toLocaleString = Intl_toLocaleString,
      toFixed = host_toFixed,
      toExponential = host_toExponential,
      Object_prototype = host_Object_prototype\<rparr>"

text \<open>
  An ES2020 host: notation, sign display and units are there, \<open>roundingMode\<close> is not
  read, and \<open>formatRange\<close> is missing.
\<close>

definition es2020_construct ::
  "string option \<Rightarrow> FormatOptions \<Rightarrow> NumberFormat_instance result" where
  "es2020_construct locales options =
     (if \<not> structurally_valid locales then Inl RangeError
      else if required_missing options then Inl TypeError
      else Inr instance_without_formatRange)"

definition es2020_host :: host where
  "es2020_host =
     \<lparr>Intl = Some \<lparr>NumberFormat =
               Some \<lparr>construct = es2020_construct, prototype_formatRange = False\<rparr>\<rparr>,
      navigator = Navigator (Some ''en-US''),
      toLocaleString = Intl_toLocaleString,
      toFixed = host_toFixed,
      toExponential = host_toExponential,
      Object_prototype = host_Object_prototype\<rparr>"

text \<open>
  The instance \<open>new IntlFormatter()\<close> of these hosts, and an empty store.
\<close>

definition en_US_formatter :: IntlFormatter where
  "en_US_formatter = \<lparr>defaultOptions = library_defaults ''en-US''\<rparr>"

definition initial_store :: store where
  "initial_store = \<lparr>objects = (\<lambda>r. empty_options), next_ref = 0, console = []\<rparr>"

text \<open>The store after \<open>new IntlFormatter()\<close> on the ES2020 host, from the empty store.\<close>

definition constructed_store :: store where
  "constructed_store = snd (constructor_st es2020_host None initial_store)"

section \<open>Properties\<close>

subsection \<open>The hosts, evaluated\<close>

lemma supportsNotation_without_Intl: "\<not> supportsNotation host_without_Intl"
  by (simp add: supportsNotation_def new_NumberFormat_def host_without_Intl_def)

lemma es2020_host_simps:
  "new_NumberFormat es2020_host l options = es2020_construct l options"
  "toLocaleString es2020_host = Intl_toLocaleString"
  "toFixed es2020_host = host_toFixed"
  "toExponential es2020_host = host_toExponential"
  "navigator es2020_host = Navigator (Some ''en-US'')"
  "Intl_NumberFormat_exists es2020_host"
  "\<not> supportsFormatRange es2020_host"
  by (simp_all add: es2020_host_def new_NumberFormat_def Intl_NumberFormat_exists_def
        supportsFormatRange_def)

lemma es2018_host_simps:
  "new_NumberFormat es2018_host l options = es2018_construct l options"
  "toLocaleString es2018_host = Intl_toLocaleString"
  "toFixed es2018_host = host_toFixed"
  "toExponential es2018_host = host_toExponential"
  "navigator es2018_host = Navigator (Some ''en-US'')"
  "Intl_NumberFormat_exists es2018_host"
  "\<not> supportsFormatRange es2018_host"
  by (simp_all add: es2018_host_def new_NumberFormat_def Intl_NumberFormat_exists_def
        supportsFormatRange_def)

lemma probes_es2020:
  "supportsNotation es2020_host" "supportsRoundingMode es2020_host"
  "supportsSignDisplay es2020_host" "supportsUnitFormat es2020_host"
  by (simp_all add: supportsNotation_def supportsRoundingMode_def supportsSignDisplay_def
        supportsUnitFormat_def es2020_host_simps es2020_construct_def
        structurally_valid_def required_missing_def empty_options_def)

lemma probes_es2018:
  "supportsNotation es2018_host" "supportsRoundingMode es2018_host"
  "supportsSignDisplay es2018_host" "\<not> supportsUnitFormat es2018_host"
  by (simp_all add: supportsNotation_def supportsRoundingMode_def supportsSignDisplay_def
        supportsUnitFormat_def es2018_host_simps es2018_construct_def
        structurally_valid_def required_missing_def empty_options_def)

lemmas options_defs =
  merged_locale_def merged_rest_def merged_options_def spread_def over_def
  library_defaults_def empty_options_def delete_undefined_def en_US_formatter_def

lemmas es2020_construct_defs =
  es2020_construct_def structurally_valid_def required_missing_def
  instance_without_formatRange_def

lemma format_es2020_plain:
  "format es2020_host en_US_formatter (Fin x) empty_options = Inr ''format''"
  using probes_es2020
  by (simp add: format_def format_try_def format_Intl_def try_catch_def and_then_def
        Math_pow_10_minus_6_def es2020_host_simps es2020_construct_defs
        format_safeFormatOptions_def options_defs Let_def)

lemma over_precedence:
  "over (over lib g) c = (if c \<noteq> Absent then c else if g \<noteq> Absent then g else lib)"
  by (cases c; cases g) (simp_all add: over_def)

lemma constructor_es2020:
  "constructor es2020_host given =
     Inr \<lparr>defaultOptions = spread (library_defaults ''en-US'') given\<rparr>"
  by (simp add: constructor_def and_then_def es2020_host_simps)

text \<open>
  Evaluation at numerals: the searches for an exponent, the decimal digits and the
  zero-padding unfold one step at a time.
\<close>

lemma binary_exponent_numeral:
  "binary_exponent (numeral k) a e =
     (if a < 1 then binary_exponent (pred_numeral k) (2 * a) (e - 1)
      else if 2 \<le> a then binary_exponent (pred_numeral k) (a / 2) (e + 1)
      else e)"
  by (simp add: numeral_eq_Suc)

lemma decimal_exponent_numeral:
  "decimal_exponent (numeral k) a e =
     (if a < 1 then decimal_exponent (pred_numeral k) (10 * a) (e - 1)
      else if 10 \<le> a then decimal_exponent (pred_numeral k) (a / 10) (e + 1)
      else e)"
  by (simp add: numeral_eq_Suc)

lemma decimal_numeral:
  "decimal (numeral k) =
     (if (numeral k :: nat) < 10 then [digit (numeral k)]
      else decimal (numeral k div 10) @ [digit (numeral k mod 10)])"
  "decimal 0 = ''0''" "decimal 1 = ''1''" "decimal (Suc 0) = ''1''"
  by (simp_all add: decimal.simps [of "numeral k"] decimal.simps [of 0]
        decimal.simps [of 1] decimal.simps [of "Suc 0"] digit_def)

lemma replicate_numeral:
  "replicate (numeral k) x = x # replicate (pred_numeral k) x"
  by (simp add: numeral_eq_Suc)

lemmas double_eval =
  round_double_def double_exponent_def pow2_def round_half_even_def
  binary_exponent_numeral Let_def

lemmas digits_eval =
  host_toFixed_def host_toExponential_def fixed_digits_def exponential_digits_def
  pow10_def decimal_exponent_numeral decimal_numeral replicate_numeral digit_def

text \<open>
  The rounding and the arithmetic on doubles, evaluated: \<open>0.1\<close> is
  \<open>3602879701896397 / 2^55\<close>; a tie goes to the even significand, also among the
  subnormal numbers and at the largest double; \<open>1150 / 1e3\<close> is the double below
  \<open>1.15\<close>, and \<open>3 - 1\<close> is exact.
\<close>

lemma round_double_evaluated:
  "round_double (1 / 10) = Fin (3602879701896397 / 2 ^ 55)"
  "round_double (- 1 / 10) = Fin (- 3602879701896397 / 2 ^ 55)"
  "round_double (2 ^ 53 + 1) = Fin (2 ^ 53)"
  "round_double (2 ^ 53 + 3) = Fin (2 ^ 53 + 4)"
  "round_double (3 / 2 ^ 1075) = Fin (1 / 2 ^ 1073)"
  "round_double (2 ^ 1024 - 2 ^ 970) = PosInf"
  by (simp_all add: double_eval)

lemma jdiv_1150: "jdiv (Fin 1150) (Fin (10 ^ 3)) = Fin (2589569785738035 / 2 ^ 51)"
  by (simp add: double_eval)

lemma jsub_3_1: "jsub (Fin 3) (Fin 1) = Fin 2"
  by (simp add: double_eval)

text \<open>
  \<open>toFixed\<close> and \<open>toExponential\<close>, evaluated: \<open>(1150 / 1e3).toFixed(1)\<close> is
  \<open>1.1\<close>, as the double is below \<open>1.15\<close>; \<open>(2.5).toFixed(0)\<close> is \<open>3\<close>, the larger
  of two nearest integers.
\<close>

lemma host_toFixed_evaluated:
  "host_toFixed (Fin (2589569785738035 / 2 ^ 51)) (Some (Fin 1)) = Inr ''1.1''"
  "host_toFixed (Fin (5 / 2)) (Some (Fin 0)) = Inr ''3''"
  "host_toFixed (Fin (- 5 / 2)) None = Inr ''-3''"
  "host_toFixed (Fin (1 / 2 ^ 24)) (Some (Fin (17 / 2))) = Inr ''0.00000006''"
  "host_toFixed (Fin 0) (Some (Fin 2)) = Inr ''0.00''"
  "host_toFixed (Fin 1) (Some (Fin 101)) = Inl RangeError"
  "host_toFixed (Fin 1) (Some (Fin (- 1))) = Inl RangeError"
  "host_toFixed (Fin 1) (Some (Fin (- 1 / 2))) = Inr ''1''"
  "host_toFixed (Fin 1) (Some PosInf) = Inl RangeError"
  "host_toFixed NaN (Some (Fin 2)) = Inr ''NaN''"
  by (simp_all add: digits_eval Let_def)

lemma host_toExponential_evaluated:
  "host_toExponential (Fin 1234) (Some (Fin 2)) = Inr ''1.23e+3''"
  "host_toExponential (Fin (5119 / 512)) (Some (Fin 2)) = Inr ''1.00e+1''"
  "host_toExponential (Fin (- 1 / 2 ^ 24)) (Some (Fin 3)) = Inr ''-5.960e-8''"
  "host_toExponential (Fin 0) (Some (Fin 2)) = Inr ''0.00e+0''"
  "host_toExponential (Fin 1) (Some (Fin 101)) = Inl RangeError"
  "host_toExponential (Fin 1) (Some (Fin (- 1))) = Inl RangeError"
  "host_toExponential PosInf (Some (Fin 101)) = Inr ''Infinity''"
  by (simp_all add: digits_eval Let_def)

subsection \<open>Option resolution\<close>

text \<open>
  C4, as amended. Let \<open>this\<close> be the instance the constructor returns for the
  options \<open>given\<close>. The options a \<open>format\<close> call works with are the locale
  \<open>merged_locale\<close> and the object \<open>merged_rest\<close> (\<open>formatOptions\<close> in the source),
  and for every key but \<open>locale\<close> the entry of that object is the caller's entry when
  the per-call options have the key (also when its value is \<open>undefined\<close>), else the
  constructor's entry when \<open>given\<close> has the key, else the library default: style
  \<open>decimal\<close>, notation \<open>standard\<close>, \<open>minimumFractionDigits\<close> 0,
  \<open>maximumFractionDigits\<close> 2, \<open>useGrouping\<close> true, rounding mode \<open>halfEven\<close>, currency
  display \<open>symbol\<close>, unit display \<open>short\<close>, sign display \<open>auto\<close>, compact display
  \<open>short\<close>, and \<open>undefined\<close> for the five other keys. The locale is the caller's when
  it is a string; otherwise (key absent or \<open>undefined\<close>) it is the instance's, which
  is the constructor's entry when \<open>given\<close> has the key and else
  \<open>navigator.language\<close>, or \<open>en-US\<close> when that is empty or \<open>undefined\<close>.
\<close>

theorem option_resolution:
  assumes "constructor h given = Inr this"
    and "navigator_language (navigator h) = Inr language"
  shows
    "format_try h this v options =
       (if jlt (Math_abs v) Math_pow_10_minus_6
           \<and> truthy (read (minimumFractionDigits options))
        then toFixed h v (read (minimumFractionDigits options))
        else format_Intl h (merged_locale this options) (merged_rest this options) v)
   \<and> merged_locale this options =
         (case read (locale' options) of
            Some l \<Rightarrow> Some l
          | None \<Rightarrow>
              (case locale' given of
                 Val l \<Rightarrow> Some l
               | Undefined \<Rightarrow> None
               | Absent \<Rightarrow> Some (or_else language ''en-US'')))
   \<and> locale' (merged_rest this options) = Absent
   \<and> currency (merged_rest this options) =
         (if currency options \<noteq> Absent then currency options
          else if currency given \<noteq> Absent then currency given else Undefined)
   \<and> style (merged_rest this options) =
         (if style options \<noteq> Absent then style options
          else if style given \<noteq> Absent then style given else Val Style_decimal)
   \<and> notation' (merged_rest this options) =
         (if notation' options \<noteq> Absent then notation' options
          else if notation' given \<noteq> Absent then notation' given else Val Notation_standard)
   \<and> unit (merged_rest this options) =
         (if unit options \<noteq> Absent then unit options
          else if unit given \<noteq> Absent then unit given else Undefined)
   \<and> minimumFractionDigits (merged_rest this options) =
         (if minimumFractionDigits options \<noteq> Absent then minimumFractionDigits options
          else if minimumFractionDigits given \<noteq> Absent then minimumFractionDigits given else Val (Fin 0))
   \<and> maximumFractionDigits (merged_rest this options) =
         (if maximumFractionDigits options \<noteq> Absent then maximumFractionDigits options
          else if maximumFractionDigits given \<noteq> Absent then maximumFractionDigits given else Val (Fin 2))
   \<and> minimumSignificantDigits (merged_rest this options) =
         (if minimumSignificantDigits options \<noteq> Absent then minimumSignificantDigits options
          else if minimumSignificantDigits given \<noteq> Absent then minimumSignificantDigits given else Undefined)
   \<and> maximumSignificantDigits (merged_rest this options) =
         (if maximumSignificantDigits options \<noteq> Absent then maximumSignificantDigits options
          else if maximumSignificantDigits given \<noteq> Absent then maximumSignificantDigits given else Undefined)
   \<and> useGrouping (merged_rest this options) =
         (if useGrouping options \<noteq> Absent then useGrouping options
          else if useGrouping given \<noteq> Absent then useGrouping given else Val (Grouping_bool True))
   \<and> signDisplay (merged_rest this options) =
         (if signDisplay options \<noteq> Absent then signDisplay options
          else if signDisplay given \<noteq> Absent then signDisplay given else Val Sign_auto)
   \<and> currencyDisplay (merged_rest this options) =
         (if currencyDisplay options \<noteq> Absent then currencyDisplay options
          else if currencyDisplay given \<noteq> Absent then currencyDisplay given else Val Currency_symbol)
   \<and> currencySign (merged_rest this options) =
         (if currencySign options \<noteq> Absent then currencySign options
          else if currencySign given \<noteq> Absent then currencySign given else Undefined)
   \<and> unitDisplay (merged_rest this options) =
         (if unitDisplay options \<noteq> Absent then unitDisplay options
          else if unitDisplay given \<noteq> Absent then unitDisplay given else Val Display_short)
   \<and> roundingMode (merged_rest this options) =
         (if roundingMode options \<noteq> Absent then roundingMode options
          else if roundingMode given \<noteq> Absent then roundingMode given else Val Rounding_halfEven)
   \<and> compactDisplay (merged_rest this options) =
         (if compactDisplay options \<noteq> Absent then compactDisplay options
          else if compactDisplay given \<noteq> Absent then compactDisplay given else Val Display_short)"
proof -
  have d: "defaultOptions this = spread (library_defaults (or_else language ''en-US'')) given"
    using assms by (auto simp add: constructor_def and_then_def)
  have t: "format_try h this v options =
       (if jlt (Math_abs v) Math_pow_10_minus_6
           \<and> truthy (read (minimumFractionDigits options))
        then toFixed h v (read (minimumFractionDigits options))
        else format_Intl h (merged_locale this options) (merged_rest this options) v)"
    by (simp add: format_try_def Let_def)
  have l: "merged_locale this options =
         (case read (locale' options) of
            Some l \<Rightarrow> Some l
          | None \<Rightarrow>
              (case locale' given of
                 Val l \<Rightarrow> Some l
               | Undefined \<Rightarrow> None
               | Absent \<Rightarrow> Some (or_else language ''en-US'')))"
    by (cases "locale' options"; cases "locale' given")
       (simp_all add: merged_locale_def merged_options_def d spread_def over_def
          library_defaults_def)
  have r: "merged_rest this options =
             (spread (spread (library_defaults (or_else language ''en-US'')) given)
                options)\<lparr>locale' := Absent\<rparr>"
    by (simp add: merged_rest_def merged_options_def d)
  show ?thesis
    unfolding r
    by (intro conjI)
       (simp_all add: t [unfolded r] l spread_def over_precedence library_defaults_def
          del: if_split cong: if_cong)
qed

theorem option_resolution_witness:
  "constructor es2020_host (empty_options\<lparr>maximumFractionDigits := Val (Fin 4)\<rparr>)
     = Inr \<lparr>defaultOptions =
              spread (library_defaults ''en-US'')
                (empty_options\<lparr>maximumFractionDigits := Val (Fin 4)\<rparr>)\<rparr>
   \<and> navigator_language (navigator es2020_host) = Inr (Some ''en-US'')
   \<and> merged_locale
        \<lparr>defaultOptions =
           spread (library_defaults ''en-US'')
             (empty_options\<lparr>maximumFractionDigits := Val (Fin 4)\<rparr>)\<rparr>
        (empty_options\<lparr>style := Val Style_percent\<rparr>) = Some ''en-US''
   \<and> style (merged_rest
        \<lparr>defaultOptions =
           spread (library_defaults ''en-US'')
             (empty_options\<lparr>maximumFractionDigits := Val (Fin 4)\<rparr>)\<rparr>
        (empty_options\<lparr>style := Val Style_percent\<rparr>)) = Val Style_percent
   \<and> maximumFractionDigits (merged_rest
        \<lparr>defaultOptions =
           spread (library_defaults ''en-US'')
             (empty_options\<lparr>maximumFractionDigits := Val (Fin 4)\<rparr>)\<rparr>
        (empty_options\<lparr>style := Val Style_percent\<rparr>)) = Val (Fin 4)
   \<and> minimumFractionDigits (merged_rest
        \<lparr>defaultOptions =
           spread (library_defaults ''en-US'')
             (empty_options\<lparr>maximumFractionDigits := Val (Fin 4)\<rparr>)\<rparr>
        (empty_options\<lparr>style := Val Style_percent\<rparr>)) = Val (Fin 0)"
proof -
  have n: "navigator_language (navigator es2020_host) = Inr (Some ''en-US'')"
    by (simp add: es2020_host_simps)
  show ?thesis
    using option_resolution
            [OF constructor_es2020 n,
             of "empty_options\<lparr>maximumFractionDigits := Val (Fin 4)\<rparr>" "Fin 1"
                "empty_options\<lparr>style := Val Style_percent\<rparr>"]
      constructor_es2020 n
    by (simp add: empty_options_def)
qed


text \<open>
  C4 as stated fails for a key given with the value \<open>undefined\<close>, whichever way
  "supplied" is read: with the constructor options
  \<open>{ locale: 'de-DE', style: 'percent' }\<close> and the call options
  \<open>{ locale: undefined, style: undefined }\<close> the locale used is the constructor's
  (the caller's entry is not used), and the style used is the caller's \<open>undefined\<close>
  (the constructor's \<open>percent\<close> is not used, and no style reaches
  \<open>Intl.NumberFormat\<close>).
\<close>

theorem option_resolution_counterexample:
  "constructor es2020_host
     (empty_options\<lparr>locale' := Val ''de-DE'', style := Val Style_percent\<rparr>)
     = Inr \<lparr>defaultOptions =
              (library_defaults ''en-US'')
                \<lparr>locale' := Val ''de-DE'', style := Val Style_percent\<rparr>\<rparr>
   \<and> merged_locale
        \<lparr>defaultOptions =
           (library_defaults ''en-US'')\<lparr>locale' := Val ''de-DE'', style := Val Style_percent\<rparr>\<rparr>
        (empty_options\<lparr>locale' := Undefined, style := Undefined\<rparr>) = Some ''de-DE''
   \<and> style (merged_rest
        \<lparr>defaultOptions =
           (library_defaults ''en-US'')\<lparr>locale' := Val ''de-DE'', style := Val Style_percent\<rparr>\<rparr>
        (empty_options\<lparr>locale' := Undefined, style := Undefined\<rparr>)) = Undefined
   \<and> style (format_safeFormatOptions es2020_host (merged_rest
        \<lparr>defaultOptions =
           (library_defaults ''en-US'')\<lparr>locale' := Val ''de-DE'', style := Val Style_percent\<rparr>\<rparr>
        (empty_options\<lparr>locale' := Undefined, style := Undefined\<rparr>))) = Absent"
  using probes_es2020
  by (simp add: constructor_es2020 format_safeFormatOptions_def options_defs Let_def)

subsection \<open>The capability probes\<close>

text \<open>
  C5, as amended. Four capabilities (notation, rounding mode, sign display, unit
  format) are probed by constructing \<open>Intl.NumberFormat\<close> for the locale \<open>en\<close> with
  the option in question: the probe is true exactly when the construction does not
  throw. Range formatting is probed without constructing anything: the probe is
  false without \<open>Intl\<close> or without \<open>Intl.NumberFormat\<close>, and otherwise says whether
  the prototype has a function \<open>formatRange\<close>, whatever the constructor does.
\<close>

theorem capability_probes:
  "(supportsNotation h \<longleftrightarrow>
      \<not> isl (new_NumberFormat h (Some ''en'')
               (empty_options\<lparr>notation' := Val Notation_compact\<rparr>)))
   \<and> (supportsRoundingMode h \<longleftrightarrow>
      \<not> isl (new_NumberFormat h (Some ''en'')
               (empty_options\<lparr>roundingMode := Val Rounding_halfEven\<rparr>)))
   \<and> (supportsSignDisplay h \<longleftrightarrow>
      \<not> isl (new_NumberFormat h (Some ''en'')
               (empty_options\<lparr>signDisplay := Val Sign_always\<rparr>)))
   \<and> (supportsUnitFormat h \<longleftrightarrow>
      \<not> isl (new_NumberFormat h (Some ''en'')
               (empty_options\<lparr>style := Val Style_unit, unit := Val ''meter''\<rparr>)))
   \<and> supportsFormatRange (h\<lparr>Intl := None\<rparr>) = False
   \<and> supportsFormatRange (h\<lparr>Intl := Some \<lparr>NumberFormat = None\<rparr>\<rparr>) = False
   \<and> supportsFormatRange
         (h\<lparr>Intl := Some \<lparr>NumberFormat =
                 Some \<lparr>construct = k, prototype_formatRange = p\<rparr>\<rparr>\<rparr>) = p"
  by (simp add: supportsNotation_def supportsRoundingMode_def supportsSignDisplay_def
        supportsUnitFormat_def supportsFormatRange_def split: sum.splits)

theorem capability_probes_witness:
  "\<not> supportsNotation host_without_Intl
   \<and> isl (new_NumberFormat host_without_Intl (Some ''en'')
            (empty_options\<lparr>notation' := Val Notation_compact\<rparr>))
   \<and> supportsSignDisplay es2020_host
   \<and> \<not> supportsUnitFormat es2018_host
   \<and> supportsFormatRange
         (es2020_host\<lparr>Intl := Some \<lparr>NumberFormat =
                 Some \<lparr>construct = (\<lambda>l options. Inl TypeError),
                       prototype_formatRange = True\<rparr>\<rparr>\<rparr>)"
proof -
  have a: "isl (new_NumberFormat host_without_Intl (Some ''en'')
                  (empty_options\<lparr>notation' := Val Notation_compact\<rparr>))"
    by (simp add: new_NumberFormat_def host_without_Intl_def)
  have b: "\<not> isl (new_NumberFormat es2020_host (Some ''en'')
                    (empty_options\<lparr>signDisplay := Val Sign_always\<rparr>))"
    by (simp add: es2020_host_simps es2020_construct_defs empty_options_def)
  have c: "isl (new_NumberFormat es2018_host (Some ''en'')
                  (empty_options\<lparr>style := Val Style_unit, unit := Val ''meter''\<rparr>))"
    by (simp add: es2018_host_simps es2018_construct_def structurally_valid_def
          empty_options_def)
  show ?thesis
    using capability_probes [of host_without_Intl]
      capability_probes [of es2020_host "\<lambda>l options. Inl TypeError" True]
      capability_probes [of es2018_host]
      a b c
    by simp
qed

text \<open>
  C5 as stated fails for range formatting: on the ES2020 host no construction
  throws (with no option, or with the option of any probe), and the range probe is
  false.
\<close>

theorem capability_probes_counterexample:
  "\<not> isl (new_NumberFormat es2020_host (Some ''en'') empty_options)
   \<and> \<not> isl (new_NumberFormat es2020_host (Some ''en'')
               (empty_options\<lparr>notation' := Val Notation_compact\<rparr>))
   \<and> \<not> isl (new_NumberFormat es2020_host (Some ''en'')
               (empty_options\<lparr>roundingMode := Val Rounding_halfEven\<rparr>))
   \<and> \<not> isl (new_NumberFormat es2020_host (Some ''en'')
               (empty_options\<lparr>signDisplay := Val Sign_always\<rparr>))
   \<and> \<not> isl (new_NumberFormat es2020_host (Some ''en'')
               (empty_options\<lparr>style := Val Style_unit, unit := Val ''meter''\<rparr>))
   \<and> \<not> supportsFormatRange es2020_host"
  by (simp add: es2020_host_simps es2020_construct_defs empty_options_def)


subsection \<open>Deleting the unsupported options\<close>

text \<open>
  What \<open>format\<close> and \<open>formatRange\<close> delete before they construct the formatter:
  \<open>format\<close> the keys of all four probes, \<open>formatRange\<close> those of three.
\<close>

lemma format_deletes_unsupported:
  "(\<not> supportsNotation h \<longrightarrow>
      notation' (format_safeFormatOptions h formatOptions) = Absent
      \<and> compactDisplay (format_safeFormatOptions h formatOptions) = Absent)
   \<and> (\<not> supportsRoundingMode h \<longrightarrow>
      roundingMode (format_safeFormatOptions h formatOptions) = Absent)
   \<and> (\<not> supportsSignDisplay h \<longrightarrow>
      signDisplay (format_safeFormatOptions h formatOptions) = Absent)
   \<and> (\<not> supportsUnitFormat h \<longrightarrow>
      unit (format_safeFormatOptions h formatOptions) = Absent
      \<and> unitDisplay (format_safeFormatOptions h formatOptions) = Absent)"
  by (simp add: format_safeFormatOptions_def delete_undefined_def Let_def)

lemma formatRange_deletes_unsupported:
  "(\<not> supportsNotation h \<longrightarrow>
      notation' (formatRange_safeFormatOptions h formatOptions) = Absent
      \<and> compactDisplay (formatRange_safeFormatOptions h formatOptions) = Absent)
   \<and> (\<not> supportsRoundingMode h \<longrightarrow>
      roundingMode (formatRange_safeFormatOptions h formatOptions) = Absent)
   \<and> (\<not> supportsSignDisplay h \<longrightarrow>
      signDisplay (formatRange_safeFormatOptions h formatOptions) = Absent)"
  by (simp add: formatRange_safeFormatOptions_def delete_undefined_def Let_def)

text \<open>
  C1 fails on the code, for \<open>formatRange\<close> and the unit options: on the ES2018 host,
  whose unit probe fails, the options \<open>formatRange\<close> constructs the formatter with
  still have \<open>unitDisplay\<close> (from the library defaults, for \<open>formatRange(1, 2)\<close>)
  and \<open>unit\<close> (for \<open>formatRange(1, 2, { unit: 'meter' })\<close>), while those of
  \<open>format\<close> have neither.
\<close>

theorem formatRange_keeps_unit_options:
  "\<not> supportsUnitFormat es2018_host \<and> Intl_NumberFormat_exists es2018_host
   \<and> unitDisplay (formatRange_safeFormatOptions es2018_host
                     (merged_rest en_US_formatter empty_options)) = Val Display_short
   \<and> unit (formatRange_safeFormatOptions es2018_host
              (merged_rest en_US_formatter (empty_options\<lparr>unit := Val ''meter''\<rparr>)))
       = Val ''meter''
   \<and> unitDisplay (format_safeFormatOptions es2018_host
                     (merged_rest en_US_formatter empty_options)) = Absent
   \<and> unit (format_safeFormatOptions es2018_host
              (merged_rest en_US_formatter (empty_options\<lparr>unit := Val ''meter''\<rparr>)))
       = Absent"
  using probes_es2018 es2018_host_simps(6)
  by (simp add: formatRange_safeFormatOptions_def format_safeFormatOptions_def
        options_defs Let_def)


subsection \<open>The small-number branch of format\<close>

text \<open>
  C10, as amended. For every value \<open>v\<close> with \<open>|v| < 1e-6\<close> (the double
  \<open>Math.pow(10, -6)\<close>) and per-call options whose \<open>minimumFractionDigits\<close> is
  truthy, \<open>format\<close> evaluates \<open>v.toFixed(options.minimumFractionDigits)\<close> and
  returns its result when that call returns, whatever the locale, the style and the
  other merged options are; when \<open>toFixed\<close> throws, the \<open>catch\<close> block returns
  \<open>v.toLocaleString(this.defaultOptions.locale)\<close>. When the per-call
  \<open>minimumFractionDigits\<close> is not truthy (absent, \<open>undefined\<close>, \<open>0\<close> or \<open>NaN\<close>),
  whatever the constructor's is, the branch is not taken: \<open>format\<close> is the rest of
  its \<open>try\<close> block under its \<open>catch\<close> block. Nor is it taken when \<open>|v| < 1e-6\<close>
  does not hold.
\<close>

theorem format_small_number:
  "(jlt (Math_abs v) Math_pow_10_minus_6 \<and> truthy (read (minimumFractionDigits options))
      \<longrightarrow> format h this v options =
            (case toFixed h v (read (minimumFractionDigits options)) of
               Inr s \<Rightarrow> Inr s
             | Inl e \<Rightarrow> toLocaleString h v (read (locale' (defaultOptions this)))))
   \<and> (\<not> truthy (read (minimumFractionDigits options))
      \<longrightarrow> format h this v options =
            try_catch
              (format_Intl h (merged_locale this options) (merged_rest this options) v)
              (format_catch h this v))
   \<and> (\<not> jlt (Math_abs v) Math_pow_10_minus_6
      \<longrightarrow> format h this v options =
            try_catch
              (format_Intl h (merged_locale this options) (merged_rest this options) v)
              (format_catch h this v))"
  by (simp add: format_def format_try_def format_catch_def try_catch_def Let_def
        split: sum.splits)

text \<open>
  On the ES2020 host: \<open>2^-24\<close> with eight digits is \<open>0.00000006\<close>; the double
  next below \<open>1e-6\<close> takes the branch, \<open>1e-6\<close> itself and \<open>-1\<close> do not; neither
  does a call whose \<open>minimumFractionDigits\<close> is \<open>0\<close> or comes from the constructor
  only.
\<close>

theorem format_small_number_witness:
  "jlt (Math_abs (Fin (1 / 2 ^ 24))) Math_pow_10_minus_6
   \<and> truthy (read (minimumFractionDigits
                     (empty_options\<lparr>minimumFractionDigits := Val (Fin 8)\<rparr>)))
   \<and> format es2020_host en_US_formatter (Fin (1 / 2 ^ 24))
        (empty_options\<lparr>minimumFractionDigits := Val (Fin 8)\<rparr>) = Inr ''0.00000006''
   \<and> jlt (Math_abs (Fin (- 4722366482869644 / 2 ^ 72))) Math_pow_10_minus_6
   \<and> format es2020_host en_US_formatter (Fin (- 4722366482869644 / 2 ^ 72))
        (empty_options\<lparr>minimumFractionDigits := Val (Fin 8)\<rparr>) = Inr ''-0.00000100''
   \<and> \<not> jlt (Math_abs (Fin (4722366482869645 / 2 ^ 72))) Math_pow_10_minus_6
   \<and> format es2020_host en_US_formatter (Fin (4722366482869645 / 2 ^ 72))
        (empty_options\<lparr>minimumFractionDigits := Val (Fin 8)\<rparr>) = Inr ''format''
   \<and> format es2020_host en_US_formatter (Fin (- 1))
        (empty_options\<lparr>minimumFractionDigits := Val (Fin 8)\<rparr>) = Inr ''format''
   \<and> \<not> truthy (read (minimumFractionDigits
                       (empty_options\<lparr>minimumFractionDigits := Val (Fin 0)\<rparr>)))
   \<and> format es2020_host
        \<lparr>defaultOptions = (library_defaults ''en-US'')\<lparr>minimumFractionDigits := Val (Fin 8)\<rparr>\<rparr>
        (Fin (1 / 2 ^ 24)) (empty_options\<lparr>minimumFractionDigits := Val (Fin 0)\<rparr>)
       = Inr ''format''
   \<and> format es2020_host
        \<lparr>defaultOptions = (library_defaults ''en-US'')\<lparr>minimumFractionDigits := Val (Fin 8)\<rparr>\<rparr>
        (Fin (1 / 2 ^ 24)) empty_options
       = Inr ''format''"
proof -
  let ?o8 = "empty_options\<lparr>minimumFractionDigits := Val (Fin 8)\<rparr>"
  let ?o0 = "empty_options\<lparr>minimumFractionDigits := Val (Fin 0)\<rparr>"
  let ?this8 = "\<lparr>defaultOptions =
                   (library_defaults ''en-US'')\<lparr>minimumFractionDigits := Val (Fin 8)\<rparr>\<rparr>"
  have s: "jlt (Math_abs (Fin (1 / 2 ^ 24))) Math_pow_10_minus_6"
    "jlt (Math_abs (Fin (- 4722366482869644 / 2 ^ 72))) Math_pow_10_minus_6"
    "\<not> jlt (Math_abs (Fin (4722366482869645 / 2 ^ 72))) Math_pow_10_minus_6"
    by (simp_all add: Math_pow_10_minus_6_def)
  have m: "read (minimumFractionDigits ?o8) = Some (Fin 8)"
    "read (minimumFractionDigits ?o0) = Some (Fin 0)"
    "read (minimumFractionDigits empty_options) = None"
    by (simp_all add: empty_options_def)
  have a: "format es2020_host en_US_formatter (Fin (1 / 2 ^ 24)) ?o8
             = Inr ''0.00000006''"
    using format_small_number
            [of "Fin (1 / 2 ^ 24)" ?o8 es2020_host en_US_formatter] s(1)
    by (simp add: m es2020_host_simps digits_eval Let_def)
  have b: "format es2020_host en_US_formatter (Fin (- 4722366482869644 / 2 ^ 72)) ?o8
             = Inr ''-0.00000100''"
    using format_small_number
            [of "Fin (- 4722366482869644 / 2 ^ 72)" ?o8 es2020_host en_US_formatter] s(2)
    by (simp add: m es2020_host_simps digits_eval Let_def)
  note ev = format_Intl_def try_catch_def and_then_def es2020_host_simps
    es2020_construct_defs format_safeFormatOptions_def options_defs Let_def
  have c: "format es2020_host en_US_formatter (Fin (4722366482869645 / 2 ^ 72)) ?o8
             = Inr ''format''"
    using format_small_number
            [of "Fin (4722366482869645 / 2 ^ 72)" ?o8 es2020_host en_US_formatter] s(3) probes_es2020
    by (simp add: ev)
  have c': "format es2020_host en_US_formatter (Fin (- 1)) ?o8 = Inr ''format''"
    using format_small_number [of "Fin (- 1)" ?o8 es2020_host en_US_formatter]
      probes_es2020
    by (simp add: Math_pow_10_minus_6_def ev)
  have d: "format es2020_host ?this8 (Fin (1 / 2 ^ 24)) ?o0 = Inr ''format''"
    using format_small_number [of "Fin (1 / 2 ^ 24)" ?o0 es2020_host ?this8]
      probes_es2020
    by (simp add: ev)
  have e: "format es2020_host ?this8 (Fin (1 / 2 ^ 24)) empty_options = Inr ''format''"
    using format_small_number [of "Fin (1 / 2 ^ 24)" empty_options es2020_host ?this8]
      probes_es2020
    by (simp add: ev)
  show ?thesis using s m a b c c' d e by simp
qed

text \<open>
  C10 as stated fails where \<open>toFixed\<close> throws: \<open>format(2 ** -24,
  { minimumFractionDigits: 101 })\<close> does not return (or throw) what
  \<open>(2 ** -24).toFixed(101)\<close> does, a RangeError, but the string of
  \<open>toLocaleString\<close>.
\<close>

theorem format_small_number_counterexample:
  "jlt (Math_abs (Fin (1 / 2 ^ 24))) Math_pow_10_minus_6
   \<and> truthy (read (minimumFractionDigits
                     (empty_options\<lparr>minimumFractionDigits := Val (Fin 101)\<rparr>)))
   \<and> toFixed es2020_host (Fin (1 / 2 ^ 24))
        (read (minimumFractionDigits
                 (empty_options\<lparr>minimumFractionDigits := Val (Fin 101)\<rparr>)))
       = Inl RangeError
   \<and> format es2020_host en_US_formatter (Fin (1 / 2 ^ 24))
        (empty_options\<lparr>minimumFractionDigits := Val (Fin 101)\<rparr>)
       = Inr ''toLocaleString''"
  by (simp add: Math_pow_10_minus_6_def host_toFixed_def es2020_host_simps
        format_def format_try_def format_catch_def try_catch_def options_defs
        Intl_toLocaleString_def structurally_valid_def)

subsection \<open>The compact fallback\<close>




subsection \<open>The scientific fallback\<close>




subsection \<open>The range separators\<close>

text \<open>
  C7, as amended. When \<open>Intl.NumberFormat\<close> exists, has no \<open>formatRange\<close>, and
  the formatter is constructed and formats both values without throwing,
  \<open>formatRange\<close> joins the two formatted values with the separator of the language
  subtag of the resolved locale (\<open>en\<close> when there is none): U+FF5E for \<open>zh\<close>, \<open>ja\<close>,
  \<open>ko\<close>; U+2014 for \<open>ar\<close>, \<open>fa\<close>, \<open>he\<close>; the Thai word between spaces for \<open>th\<close>;
  U+2013 for every other language.
\<close>

theorem formatRange_separator:
  assumes "\<not> supportsFormatRange h" and "Intl_NumberFormat_exists h"
    and "new_NumberFormat h (merged_locale this options)
           (formatRange_safeFormatOptions h (merged_rest this options)) = Inr formatter"
    and "nf_format formatter start = Inr a"
    and "nf_format formatter end' = Inr b"
  shows
    "formatRange h this start end' options =
       Inr (a @ getLocaleSeparator (or_else (merged_locale this options) ''en'') @ b)
     \<and> getLocaleSeparator l =
         (if split_dash_first (toLowerCase l) \<in> {''zh'', ''ja'', ''ko''} then separator_cjk
          else if split_dash_first (toLowerCase l) \<in> {''ar'', ''fa'', ''he''}
          then separator_rtl
          else if split_dash_first (toLowerCase l) = ''th'' then separator_thai
          else separator_default)"
  using assms
  by (simp add: formatRange_def formatRange_try_def formatRange_Intl_def try_catch_def
        and_then_def getLocaleSeparator_def Let_def)

theorem formatRange_separator_witness:
  "\<not> supportsFormatRange es2020_host \<and> Intl_NumberFormat_exists es2020_host
   \<and> merged_locale en_US_formatter (empty_options\<lparr>locale' := Val ''ja-JP''\<rparr>)
       = Some ''ja-JP''
   \<and> formatRange es2020_host en_US_formatter (Fin 1) (Fin 2)
        (empty_options\<lparr>locale' := Val ''ja-JP''\<rparr>)
       = Inr (''format'' @ [CHR 0xEF, CHR 0xBD, CHR 0x9E] @ ''format'')
   \<and> getLocaleSeparator ''ar-EG'' = [CHR 0xE2, CHR 0x80, CHR 0x94]
   \<and> getLocaleSeparator ''TH''
       = [CHR '' '', CHR 0xE0, CHR 0xB8, CHR 0x96, CHR 0xE0, CHR 0xB8, CHR 0xB6,
          CHR 0xE0, CHR 0xB8, CHR 0x87, CHR '' '']
   \<and> getLocaleSeparator ''en-US'' = [CHR 0xE2, CHR 0x80, CHR 0x93]"
proof -
  have l: "merged_locale en_US_formatter (empty_options\<lparr>locale' := Val ''ja-JP''\<rparr>)
             = Some ''ja-JP''"
    by (simp add: options_defs)
  have c: "new_NumberFormat es2020_host (Some ''ja-JP'')
             (formatRange_safeFormatOptions es2020_host
                (merged_rest en_US_formatter (empty_options\<lparr>locale' := Val ''ja-JP''\<rparr>)))
           = Inr instance_without_formatRange"
    by (simp add: es2020_host_simps es2020_construct_defs
          formatRange_safeFormatOptions_def options_defs Let_def)
  have f: "nf_format instance_without_formatRange (Fin 1) = Inr ''format''"
    "nf_format instance_without_formatRange (Fin 2) = Inr ''format''"
    by (simp_all add: instance_without_formatRange_def)
  note t = formatRange_separator
             [OF es2020_host_simps(7) es2020_host_simps(6) c [folded l] f]
  have s: "split_dash_first (toLowerCase ''ja-JP'') = ''ja''"
    "split_dash_first (toLowerCase ''ar-EG'') = ''ar''"
    "split_dash_first (toLowerCase ''TH'') = ''th''"
    "split_dash_first (toLowerCase ''en-US'') = ''en''"
    by (simp_all add: split_dash_first_def toLowerCase_def)
  show ?thesis
    using t [of "''ja-JP''"] t [of "''ar-EG''"] t [of "''TH''"] t [of "''en-US''"]
      es2020_host_simps(6,7) l s
    by (simp add: separator_cjk_def separator_rtl_def separator_thai_def
          separator_default_def)
qed

text \<open>
  C7 as stated fails where the construction throws: on the ES2020 host
  \<open>formatRange(1, 2, { locale: 'ja-JP', style: 'currency' })\<close> (no currency: a
  TypeError) is joined by \<open>' - '\<close> in the \<open>catch\<close> block, not by the separator of
  \<open>ja\<close>.
\<close>

theorem formatRange_separator_counterexample:
  "\<not> supportsFormatRange es2020_host \<and> Intl_NumberFormat_exists es2020_host
   \<and> merged_locale en_US_formatter
         (empty_options\<lparr>locale' := Val ''ja-JP'', style := Val Style_currency\<rparr>)
       = Some ''ja-JP''
   \<and> getLocaleSeparator ''ja-JP'' = [CHR 0xEF, CHR 0xBD, CHR 0x9E]
   \<and> formatRange es2020_host en_US_formatter (Fin 1) (Fin 2)
        (empty_options\<lparr>locale' := Val ''ja-JP'', style := Val Style_currency\<rparr>)
       = Inr ''format - format''"
proof -
  have l: "merged_locale en_US_formatter
             (empty_options\<lparr>locale' := Val ''ja-JP'', style := Val Style_currency\<rparr>)
           = Some ''ja-JP''"
    by (simp add: options_defs)
  have s: "getLocaleSeparator ''ja-JP'' = [CHR 0xEF, CHR 0xBD, CHR 0x9E]"
    by (simp add: getLocaleSeparator_def split_dash_first_def toLowerCase_def
          separator_cjk_def)
  have t: "formatRange_try es2020_host en_US_formatter (Fin 1) (Fin 2)
             (empty_options\<lparr>locale' := Val ''ja-JP'', style := Val Style_currency\<rparr>)
           = Inl TypeError"
    using probes_es2020
    by (simp add: formatRange_try_def formatRange_Intl_def and_then_def
          es2020_host_simps es2020_construct_defs formatRange_safeFormatOptions_def
          options_defs Let_def)
  show ?thesis
    using es2020_host_simps(6,7) l s
    by (simp add: formatRange_def formatRange_catch_def try_catch_def and_then_def t
          format_es2020_plain)
qed

subsection \<open>Exceptions that reach the caller\<close>

text \<open>
  The fallbacks of \<open>formatScientific\<close> and \<open>formatCompact\<close> call \<open>toExponential\<close>
  and \<open>toFixed\<close> outside every \<open>try\<close>: on a host without \<open>Intl\<close> a digit count
  above 100 is a RangeError of the method.
\<close>

lemma formatScientific_propagates:
  "formatScientific host_without_Intl en_US_formatter (Fin 1)
     (empty_options\<lparr>minimumSignificantDigits := Val (Fin 200),
        maximumSignificantDigits := Val (Fin 200)\<rparr>) = Inl RangeError"
  using supportsNotation_without_Intl
  by (simp add: formatScientific_def formatScientific_precision_def empty_options_def
        host_without_Intl_def host_toExponential_def double_eval)

lemma formatCompact_propagates:
  "formatCompact host_without_Intl en_US_formatter (Fin 5000)
     (empty_options\<lparr>minimumFractionDigits := Val (Fin 101),
        maximumFractionDigits := Val (Fin 101)\<rparr>) = Inl RangeError"
  using supportsNotation_without_Intl
  by (simp add: formatCompact_def formatCompact_format_def empty_options_def
        host_without_Intl_def host_toFixed_def and_then_def double_eval)

text \<open>
  C2 fails on the code: \<open>new IntlFormatter({ locale: 'en_US' }).format(1)\<close> throws.
  \<open>Intl.NumberFormat\<close> rejects the locale, and the \<open>catch\<close> block calls
  \<open>toLocaleString\<close> with the same locale, whose RangeError nothing catches.
\<close>

theorem format_propagates:
  "constructor es2020_host (empty_options\<lparr>locale' := Val ''en_US''\<rparr>)
     = Inr \<lparr>defaultOptions = (library_defaults ''en-US'')\<lparr>locale' := Val ''en_US''\<rparr>\<rparr>
   \<and> format es2020_host
        \<lparr>defaultOptions = (library_defaults ''en-US'')\<lparr>locale' := Val ''en_US''\<rparr>\<rparr>
        (Fin 1) empty_options = Inl RangeError"
  using probes_es2020
  by (simp add: constructor_def and_then_def format_def format_try_def format_Intl_def
        format_catch_def try_catch_def Math_pow_10_minus_6_def es2020_host_simps
        es2020_construct_defs Intl_toLocaleString_def format_safeFormatOptions_def
        options_defs Let_def)

subsection \<open>The store semantics and the value semantics agree\<close>

text \<open>
  Each method, run on a store, returns what the value semantics returns on the
  objects the references point to, and leaves a store that extends the one it
  started from: a method writes only to objects it has allocated itself.
\<close>

lemma defaultOptions_instance_at:
  "defaultOptions (instance_at s this) = objects s (defaultOptions_ref this)"
  by (simp add: instance_at_def)

lemma extends_refl: "extends s s"
  by (simp add: extends_def)

lemma extends_trans: "extends s s' \<Longrightarrow> extends s' s'' \<Longrightarrow> extends s s''"
  by (auto simp add: extends_def)

lemma extends_allocated: "extends s s' \<Longrightarrow> allocated s r \<Longrightarrow> allocated s' r"
  by (auto simp add: extends_def allocated_def)

lemma extends_objects: "extends s s' \<Longrightarrow> allocated s r \<Longrightarrow> objects s' r = objects s r"
  by (auto simp add: extends_def allocated_def)

lemma extends_console_error: "extends s (console_error e s)"
  by (simp add: extends_def console_error_def)

lemma new_object_sound:
  assumes "new_object obj s = (r, s')"
  shows "extends s s'" and "objects s' r = obj" and "allocated s' r"
  using assms by (auto simp add: new_object_def extends_def allocated_def)

lemma default_parameter_sound:
  assumes "default_parameter options s = (r, s')" and "argument_ok s options"
  shows "extends s s'" and "objects s' r = argument_at s options" and "allocated s' r"
  using assms
  by (auto simp add: default_parameter_def argument_ok_def argument_at_def extends_refl
        split: option.splits dest: new_object_sound)

lemma merge_st_sound:
  assumes "merge_st this options s = ((locale, formatOptions), s')"
    and "allocated s (defaultOptions_ref this)" and "allocated s options"
  shows "extends s s'"
    and "locale = merged_locale (instance_at s this) (objects s options)"
    and "objects s' formatOptions = merged_rest (instance_at s this) (objects s options)"
    and "allocated s' formatOptions"
  using assms
  by (auto simp add: merge_st_def new_object_def extends_def allocated_def instance_at_def
        merged_locale_def merged_rest_def merged_options_def Let_def
        split: prod.splits option.splits)


lemma format_safeFormatOptions_st_sound:
  assumes "format_safeFormatOptions_st h formatOptions s = (safe, s')"
  shows "extends s s'"
    and "objects s' safe = format_safeFormatOptions h (objects s formatOptions)"
  using assms
  by (auto simp add: format_safeFormatOptions_st_def format_safeFormatOptions_def
        new_object_def update_object_def extends_def Let_def
        split: prod.splits)

lemma formatRange_safeFormatOptions_st_sound:
  assumes "formatRange_safeFormatOptions_st h formatOptions s = (safe, s')"
  shows "extends s s'"
    and "objects s' safe = formatRange_safeFormatOptions h (objects s formatOptions)"
  using assms
  by (auto simp add: formatRange_safeFormatOptions_st_def formatRange_safeFormatOptions_def
        new_object_def update_object_def extends_def Let_def
        split: prod.splits)

lemma format_try_st_sound:
  assumes "allocated s (defaultOptions_ref this)" and "allocated s options"
  shows "extends s (snd (format_try_st h this v options s))"
    and "fst (format_try_st h this v options s) =
           format_try h (instance_at s this) v (objects s options)"
proof -
  obtain loc formatOptions s1 where
    m: "merge_st this options s = ((loc, formatOptions), s1)"
    by (metis prod.exhaust)
  note ms = merge_st_sound [OF m assms]
  obtain safe s2 where
    f: "format_safeFormatOptions_st h formatOptions s1 = (safe, s2)"
    by (metis prod.exhaust)
  note fs = format_safeFormatOptions_st_sound [OF f]
  have o: "objects s1 options = objects s options"
    using ms(1) assms(2) by (rule extends_objects)
  show "extends s (snd (format_try_st h this v options s))"
    using ms(1) fs(1) by (auto simp add: format_try_st_def m f intro: extends_trans)
  show "fst (format_try_st h this v options s) =
          format_try h (instance_at s this) v (objects s options)"
    using ms(2,3) fs(2)
    by (simp add: format_try_st_def format_try_def format_Intl_def m f o Let_def)
qed

lemma format_st_sound:
  assumes "allocated s (defaultOptions_ref this)" and "argument_ok s options"
  shows "extends s (snd (format_st h this v options s))"
    and "fst (format_st h this v options s) =
           format h (instance_at s this) v (argument_at s options)"
proof -
  obtain r s1 where d: "default_parameter options s = (r, s1)"
    by (metis prod.exhaust)
  note ds = default_parameter_sound [OF d assms(2)]
  have a1: "allocated s1 (defaultOptions_ref this)"
    using ds(1) assms(1) by (rule extends_allocated)
  note ts = format_try_st_sound [OF a1 ds(3), of h v]
  have i: "instance_at s1 this = instance_at s this"
    using extends_objects [OF ds(1) assms(1)] by (simp add: instance_at_def)
  obtain res s2 where t: "format_try_st h this v r s1 = (res, s2)"
    by (metis prod.exhaust)
  have e2: "extends s s2"
    using ds(1) ts(1) by (simp add: t) (rule extends_trans)
  have d2: "objects (console_error e s2) (defaultOptions_ref this)
              = objects s (defaultOptions_ref this)" for e
    using extends_objects [OF e2 assms(1)] by (simp add: console_error_def)
  show "extends s (snd (format_st h this v options s))"
    using e2 extends_console_error [of s2]
    by (auto simp add: format_st_def d t Let_def split: sum.splits intro: extends_trans)
  show "fst (format_st h this v options s) =
          format h (instance_at s this) v (argument_at s options)"
    using ts(2) ds(2) d2
    by (auto simp add: format_st_def format_def format_catch_def try_catch_def d t i
          defaultOptions_instance_at Let_def split: sum.splits)
qed

lemma instance_at_extends:
  "extends s s' \<Longrightarrow> allocated s (defaultOptions_ref this) \<Longrightarrow>
     instance_at s' this = instance_at s this"
  by (simp add: instance_at_def extends_objects)

lemma format_st_on_new_object:
  assumes "allocated s (defaultOptions_ref this)"
    and "new_object obj s = (a, s')"
  shows "extends s (snd (format_st h this v (Some a) s'))"
    and "fst (format_st h this v (Some a) s') = format h (instance_at s this) v obj"
proof -
  note ns = new_object_sound [OF assms(2)]
  have al: "allocated s' (defaultOptions_ref this)"
    using ns(1) assms(1) by (rule extends_allocated)
  have ok: "argument_ok s' (Some a)"
    using ns(3) by (simp add: argument_ok_def)
  note fs = format_st_sound [OF al ok, of h v]
  show "extends s (snd (format_st h this v (Some a) s'))"
    using ns(1) fs(1) by (rule extends_trans)
  show "fst (format_st h this v (Some a) s') = format h (instance_at s this) v obj"
    using fs(2) ns(2) instance_at_extends [OF ns(1) assms(1)]
    by (simp add: argument_at_def)
qed

lemma formatCurrency_st_sound:
  assumes "allocated s (defaultOptions_ref this)" and "argument_ok s options"
  shows "extends s (snd (formatCurrency_st h this v options s))"
    and "fst (formatCurrency_st h this v options s) =
           formatCurrency h (instance_at s this) v (argument_at s options)"
proof -
  obtain r s1 where d: "default_parameter options s = (r, s1)"
    by (metis prod.exhaust)
  note ds = default_parameter_sound [OF d assms(2)]
  have a1: "allocated s1 (defaultOptions_ref this)"
    using ds(1) assms(1) by (rule extends_allocated)
  obtain a s2 where
    n: "new_object
          ((objects s1 r)
             \<lparr>style := Val Style_currency,
              minimumFractionDigits :=
                Val (nullish (read (minimumFractionDigits (objects s1 r))) (Fin 2)),
              maximumFractionDigits :=
                Val (nullish (read (maximumFractionDigits (objects s1 r))) (Fin 2))\<rparr>)
          s1 = (a, s2)"
    by (metis prod.exhaust)
  note fs = format_st_on_new_object [OF a1 n, of h v]
  show "extends s (snd (formatCurrency_st h this v options s))"
    using ds(1) fs(1) by (simp add: formatCurrency_st_def d n) (rule extends_trans)
  show "fst (formatCurrency_st h this v options s) =
          formatCurrency h (instance_at s this) v (argument_at s options)"
    using fs(2) ds(2) n instance_at_extends [OF ds(1) assms(1)]
    by (simp add: formatCurrency_st_def formatCurrency_def d)
qed

lemma formatPercent_st_sound:
  assumes "allocated s (defaultOptions_ref this)" and "argument_ok s options"
  shows "extends s (snd (formatPercent_st h this v options s))"
    and "fst (formatPercent_st h this v options s) =
           formatPercent h (instance_at s this) v (argument_at s options)"
proof -
  obtain r s1 where d: "default_parameter options s = (r, s1)"
    by (metis prod.exhaust)
  note ds = default_parameter_sound [OF d assms(2)]
  have a1: "allocated s1 (defaultOptions_ref this)"
    using ds(1) assms(1) by (rule extends_allocated)
  obtain a s2 where
    n: "new_object
          ((objects s1 r)
             \<lparr>style := Val Style_percent,
              minimumFractionDigits :=
                Val (nullish (read (minimumFractionDigits (objects s1 r))) (Fin 0)),
              maximumFractionDigits :=
                Val (nullish (read (maximumFractionDigits (objects s1 r))) (Fin 1))\<rparr>)
          s1 = (a, s2)"
    by (metis prod.exhaust)
  note fs = format_st_on_new_object [OF a1 n, of h v]
  show "extends s (snd (formatPercent_st h this v options s))"
    using ds(1) fs(1) by (simp add: formatPercent_st_def d n) (rule extends_trans)
  show "fst (formatPercent_st h this v options s) =
          formatPercent h (instance_at s this) v (argument_at s options)"
    using fs(2) ds(2) n instance_at_extends [OF ds(1) assms(1)]
    by (simp add: formatPercent_st_def formatPercent_def d)
qed

lemma format_st_on_parameter:
  assumes "allocated s (defaultOptions_ref this)" and "argument_ok s options"
    and "default_parameter options s = (r, s1)"
  shows "extends s (snd (format_st h this v (Some r) s1))"
    and "fst (format_st h this v (Some r) s1) =
           format h (instance_at s this) v (argument_at s options)"
    and "objects (snd (format_st h this v (Some r) s1)) r = argument_at s options"
proof -
  note ds = default_parameter_sound [OF assms(3,2)]
  have a1: "allocated s1 (defaultOptions_ref this)"
    using ds(1) assms(1) by (rule extends_allocated)
  have ok: "argument_ok s1 (Some r)"
    using ds(3) by (simp add: argument_ok_def)
  note fs = format_st_sound [OF a1 ok, of h v]
  show "extends s (snd (format_st h this v (Some r) s1))"
    using ds(1) fs(1) by (rule extends_trans)
  show "fst (format_st h this v (Some r) s1) =
          format h (instance_at s this) v (argument_at s options)"
    using fs(2) ds(2) instance_at_extends [OF ds(1) assms(1)]
    by (simp add: argument_at_def)
  show "objects (snd (format_st h this v (Some r) s1)) r = argument_at s options"
    using extends_objects [OF fs(1) ds(3)] ds(2) by simp
qed

lemma formatUnit_st_sound:
  assumes "allocated s (defaultOptions_ref this)" and "argument_ok s options"
  shows "extends s (snd (formatUnit_st h this v u options s))"
    and "fst (formatUnit_st h this v u options s) =
           formatUnit h (instance_at s this) v u (argument_at s options)"
proof -
  obtain r s1 where d: "default_parameter options s = (r, s1)"
    by (metis prod.exhaust)
  note ds = default_parameter_sound [OF d assms(2)]
  note ps = format_st_on_parameter [OF assms d, of h v]
  have a1: "allocated s1 (defaultOptions_ref this)"
    using ds(1) assms(1) by (rule extends_allocated)
  obtain a s2 where
    n: "new_object
          ((objects s1 r)
             \<lparr>style := Val Style_unit, unit := Val u,
              unitDisplay :=
                Val (nullish (read (unitDisplay (objects s1 r))) Display_short)\<rparr>)
          s1 = (a, s2)"
    by (metis prod.exhaust)
  note fs = format_st_on_new_object [OF a1 n, of h v]
  have e: "extends s (snd (format_st h this v (Some a) s2))"
    using ds(1) fs(1) by (rule extends_trans)
  show "extends s (snd (formatUnit_st h this v u options s))"
    using ps(1) e by (simp add: formatUnit_st_def d n split_def Let_def)
  show "fst (formatUnit_st h this v u options s) =
          formatUnit h (instance_at s this) v u (argument_at s options)"
    using fs(2) ps(2,3) ds(2) n instance_at_extends [OF ds(1) assms(1)]
    by (simp add: formatUnit_st_def formatUnit_def d split_def Let_def)
qed

lemma formatCustom_st_sound:
  assumes "allocated s (defaultOptions_ref this)" and "argument_ok s options"
  shows "extends s (snd (formatCustom_st h this v f options s))"
    and "fst (formatCustom_st h this v f options s) =
           formatCustom h (instance_at s this) v f (argument_at s options)"
proof -
  obtain r s1 where d: "default_parameter options s = (r, s1)"
    by (metis prod.exhaust)
  note ps = format_st_on_parameter [OF assms d, of h v]
  show "extends s (snd (formatCustom_st h this v f options s))"
    using ps(1) by (simp add: formatCustom_st_def d split_def Let_def)
  show "fst (formatCustom_st h this v f options s) =
          formatCustom h (instance_at s this) v f (argument_at s options)"
    using ps(2) by (simp add: formatCustom_st_def formatCustom_def d split_def Let_def)
qed

lemma formatCompact_st_sound:
  assumes "allocated s (defaultOptions_ref this)" and "argument_ok s options"
  shows "extends s (snd (formatCompact_st h this v options s))"
    and "fst (formatCompact_st h this v options s) =
           formatCompact h (instance_at s this) v (argument_at s options)"
proof -
  obtain r s1 where d: "default_parameter options s = (r, s1)"
    by (metis prod.exhaust)
  note ds = default_parameter_sound [OF d assms(2)]
  note ps = format_st_on_parameter [OF assms d, of h v]
  have a1: "allocated s1 (defaultOptions_ref this)"
    using ds(1) assms(1) by (rule extends_allocated)
  obtain a s2 where
    n: "new_object
          ((objects s1 r)
             \<lparr>notation' := Val Notation_compact,
              compactDisplay :=
                Val (nullish (read (compactDisplay (objects s1 r))) Display_short)\<rparr>)
          s1 = (a, s2)"
    by (metis prod.exhaust)
  note fs = format_st_on_new_object [OF a1 n, of h v]
  have e: "extends s (snd (format_st h this v (Some a) s2))"
    using ds(1) fs(1) by (rule extends_trans)
  show "extends s (snd (formatCompact_st h this v options s))"
    using ps(1) e ds(1) by (simp add: formatCompact_st_def d n Let_def)
  show "fst (formatCompact_st h this v options s) =
          formatCompact h (instance_at s this) v (argument_at s options)"
    using fs(2) ps(2) ds(2) n instance_at_extends [OF ds(1) assms(1)]
    by (simp add: formatCompact_st_def formatCompact_def d Let_def)
qed

lemma formatScientific_st_sound:
  assumes "allocated s (defaultOptions_ref this)" and "argument_ok s options"
  shows "extends s (snd (formatScientific_st h this v options s))"
    and "fst (formatScientific_st h this v options s) =
           formatScientific h (instance_at s this) v (argument_at s options)"
proof -
  obtain r s1 where d: "default_parameter options s = (r, s1)"
    by (metis prod.exhaust)
  note ds = default_parameter_sound [OF d assms(2)]
  have a1: "allocated s1 (defaultOptions_ref this)"
    using ds(1) assms(1) by (rule extends_allocated)
  obtain a s2 where
    n: "new_object
          ((objects s1 r)
             \<lparr>notation' := Val Notation_scientific,
              minimumSignificantDigits :=
                Val (nullish (read (minimumSignificantDigits (objects s1 r))) (Fin 3)),
              maximumSignificantDigits :=
                Val (nullish (read (maximumSignificantDigits (objects s1 r))) (Fin 5))\<rparr>)
          s1 = (a, s2)"
    by (metis prod.exhaust)
  note fs = format_st_on_new_object [OF a1 n, of h v]
  have e: "extends s (snd (format_st h this v (Some a) s2))"
    using ds(1) fs(1) by (rule extends_trans)
  show "extends s (snd (formatScientific_st h this v options s))"
    using e ds(1) by (simp add: formatScientific_st_def d n)
  show "fst (formatScientific_st h this v options s) =
          formatScientific h (instance_at s this) v (argument_at s options)"
    using fs(2) ds(2) n instance_at_extends [OF ds(1) assms(1)]
    by (simp add: formatScientific_st_def formatScientific_def d)
qed

lemma formatRange_try_st_sound:
  assumes "allocated s (defaultOptions_ref this)" and "allocated s options"
  shows "extends s (snd (formatRange_try_st h this a b options s))"
    and "fst (formatRange_try_st h this a b options s) =
           formatRange_try h (instance_at s this) a b (objects s options)"
proof -
  obtain loc formatOptions s1 where
    m: "merge_st this options s = ((loc, formatOptions), s1)"
    by (metis prod.exhaust)
  note ms = merge_st_sound [OF m assms]
  obtain safe s2 where
    f: "formatRange_safeFormatOptions_st h formatOptions s1 = (safe, s2)"
    by (metis prod.exhaust)
  note fs = formatRange_safeFormatOptions_st_sound [OF f]
  show "extends s (snd (formatRange_try_st h this a b options s))"
    using ms(1) fs(1) by (auto simp add: formatRange_try_st_def m f intro: extends_trans)
  show "fst (formatRange_try_st h this a b options s) =
          formatRange_try h (instance_at s this) a b (objects s options)"
    using ms(2,3) fs(2)
    by (simp add: formatRange_try_st_def formatRange_try_def formatRange_Intl_def m f
          Let_def)
qed

lemma format_st_None:
  assumes "allocated s (defaultOptions_ref this)"
  shows "extends s (snd (format_st h this v None s))"
    and "fst (format_st h this v None s) = format h (instance_at s this) v empty_options"
  using format_st_sound [OF assms, of None h v]
  by (simp_all add: argument_ok_def argument_at_def)

lemma formatRange_st_sound:
  assumes "allocated s (defaultOptions_ref this)" and "argument_ok s options"
  shows "extends s (snd (formatRange_st h this a b options s))"
    and "fst (formatRange_st h this a b options s) =
           formatRange h (instance_at s this) a b (argument_at s options)"
proof -
  obtain r s1 where d: "default_parameter options s = (r, s1)"
    by (metis prod.exhaust)
  note ds = default_parameter_sound [OF d assms(2)]
  have a1: "allocated s1 (defaultOptions_ref this)"
    using ds(1) assms(1) by (rule extends_allocated)
  note ts = formatRange_try_st_sound [OF a1 ds(3), of h a b]
  have i1: "instance_at s1 this = instance_at s this"
    using ds(1) assms(1) by (rule instance_at_extends)
  obtain res s2 where t: "formatRange_try_st h this a b r s1 = (res, s2)"
    by (metis prod.exhaust)
  have e2: "extends s s2"
    using ds(1) ts(1) by (simp add: t) (rule extends_trans)
  have tr: "formatRange_try h (instance_at s this) a b (argument_at s options) = res"
    using ts(2) ds(2) by (simp add: t i1)
  have both:
    "extends s (snd (formatRange_st h this a b options s))
     \<and> fst (formatRange_st h this a b options s) =
           formatRange h (instance_at s this) a b (argument_at s options)"
  proof (cases res)
    case (Inr formatted)
    show ?thesis
      using e2
      by (simp add: formatRange_st_def formatRange_def try_catch_def d t tr Inr)
  next
    case (Inl error)
    define s3 where "s3 = console_error error s2"
    have e3: "extends s s3"
      using e2 extends_console_error [of s2 error]
      unfolding s3_def by (rule extends_trans)
    have a3: "allocated s3 (defaultOptions_ref this)"
      using e3 assms(1) by (rule extends_allocated)
    have i3: "instance_at s3 this = instance_at s this"
      using e3 assms(1) by (rule instance_at_extends)
    obtain x s4 where fa: "format_st h this a None s3 = (x, s4)"
      by (metis prod.exhaust)
    note fas = format_st_None [OF a3, of h a]
    have e4: "extends s s4"
      using e3 fas(1) by (simp add: fa) (rule extends_trans)
    have a4: "allocated s4 (defaultOptions_ref this)"
      using e4 assms(1) by (rule extends_allocated)
    have i4: "instance_at s4 this = instance_at s this"
      using e4 assms(1) by (rule instance_at_extends)
    obtain y s5 where fb: "format_st h this b None s4 = (y, s5)"
      by (metis prod.exhaust)
    note fbs = format_st_None [OF a4, of h b]
    have e5: "extends s s5"
      using e4 fbs(1) by (simp add: fb) (rule extends_trans)
    have xa: "format h (instance_at s this) a empty_options = x"
      using fas(2) by (simp add: fa i3)
    have yb: "format h (instance_at s this) b empty_options = y"
      using fbs(2) by (simp add: fb i4)
    show ?thesis
      using e4 e5
      by (simp add: formatRange_st_def formatRange_def formatRange_catch_def try_catch_def
            and_then_def d t tr xa yb Inl s3_def [symmetric] fa fb Let_def
            split: sum.splits)
  qed
  show "extends s (snd (formatRange_st h this a b options s))"
    using both by simp
  show "fst (formatRange_st h this a b options s) =
          formatRange h (instance_at s this) a b (argument_at s options)"
    using both by simp
qed

lemma invoke_sound:
  assumes "allocated s (defaultOptions_ref this)" and "call_ok s c"
  shows "extends s (snd (invoke h this c s))"
    and "fst (invoke h this c s) =
           invoke_value h (instance_at s this) c (argument_at s (call_options c))"
  using assms
  by (cases c;
      simp add: call_ok_def format_st_sound formatCurrency_st_sound
        formatPercent_st_sound formatUnit_st_sound formatCustom_st_sound
        formatRange_st_sound formatCompact_st_sound formatScientific_st_sound)+

lemma argument_ok_extends: "extends s s' \<Longrightarrow> argument_ok s options \<Longrightarrow> argument_ok s' options"
  by (auto simp add: argument_ok_def split: option.splits dest: extends_allocated)

lemma argument_at_extends:
  "extends s s' \<Longrightarrow> argument_ok s options \<Longrightarrow> argument_at s' options = argument_at s options"
  by (auto simp add: argument_ok_def argument_at_def split: option.splits
        dest: extends_objects)

lemma call_ok_extends: "extends s s' \<Longrightarrow> call_ok s c \<Longrightarrow> call_ok s' c"
  by (simp add: call_ok_def argument_ok_extends)

lemma invoke_after_extends:
  assumes "allocated s (defaultOptions_ref this)" and "call_ok s c" and "extends s s'"
  shows "fst (invoke h this c s') = fst (invoke h this c s)"
proof -
  have a': "allocated s' (defaultOptions_ref this)"
    using assms(3,1) by (rule extends_allocated)
  have c': "call_ok s' c"
    using assms(3,2) by (rule call_ok_extends)
  have "argument_at s' (call_options c) = argument_at s (call_options c)"
    using assms(3,2) by (simp add: call_ok_def argument_at_extends)
  then show ?thesis
    using invoke_sound(2) [OF a' c', of h] invoke_sound(2) [OF assms(1,2), of h]
      instance_at_extends [OF assms(3,1)]
    by simp
qed

lemma run_extends:
  assumes "allocated s (defaultOptions_ref this)" and "run_ok h this actions s"
  shows "extends s (snd (run h this actions s))"
  using assms
proof (induction actions arbitrary: s)
  case Nil
  show ?case by (simp add: extends_refl)
next
  case (Cons a as)
  show ?case
  proof (cases a)
    case (Call c)
    obtain r s1 where i: "invoke h this c s = (r, s1)"
      by (metis prod.exhaust)
    have ok: "call_ok s c"
      using Cons.prems(2) by (simp add: Call)
    have e1: "extends s s1"
      using invoke_sound(1) [OF Cons.prems(1) ok, of h] by (simp add: i)
    have a1: "allocated s1 (defaultOptions_ref this)"
      using e1 Cons.prems(1) by (rule extends_allocated)
    have oks: "run_ok h this as s1"
      using Cons.prems(2) by (simp add: Call i)
    have "extends s1 (snd (run h this as s1))"
      using a1 oks by (rule Cons.IH)
    then have "extends s (snd (run h this as s1))"
      using e1 by (rule extends_trans [rotated])
    then show ?thesis
      by (simp add: Call i split_def Let_def)
  next
    case (New_options obj)
    obtain r s1 where n: "new_object obj s = (r, s1)"
      by (metis prod.exhaust)
    have e1: "extends s s1"
      using n by (rule new_object_sound(1))
    have a1: "allocated s1 (defaultOptions_ref this)"
      using e1 Cons.prems(1) by (rule extends_allocated)
    have oks: "run_ok h this as s1"
      using Cons.prems(2) by (simp add: New_options n)
    have "extends s1 (snd (run h this as s1))"
      using a1 oks by (rule Cons.IH)
    then have "extends s (snd (run h this as s1))"
      using e1 by (rule extends_trans [rotated])
    then show ?thesis
      by (simp add: New_options n)
  qed
qed

lemma constructor_st_sound:
  assumes "constructor_st h options s0 = (Inr this, s)" and "argument_ok s0 options"
  shows "allocated s (defaultOptions_ref this)"
    and "constructor h (argument_at s0 options) = Inr (instance_at s this)"
    and "extends s0 s"
proof -
  obtain r s1 where d: "default_parameter options s0 = (r, s1)"
    by (metis prod.exhaust)
  note ds = default_parameter_sound [OF d assms(2)]
  show "allocated s (defaultOptions_ref this)"
    and "constructor h (argument_at s0 options) = Inr (instance_at s this)"
    and "extends s0 s"
    using assms(1) ds
    by (auto simp add: constructor_st_def constructor_def and_then_def d new_object_def
          allocated_def instance_at_def extends_def Let_def
          split: sum.splits)
qed

lemma constructed_store_simps:
  "constructor_st es2020_host None initial_store
     = (Inr \<lparr>defaultOptions_ref = 1\<rparr>, constructed_store)"
  "next_ref constructed_store = 2"
  "objects constructed_store 0 = empty_options"
  "objects constructed_store (Suc 0) = library_defaults ''en-US''"
  by (simp_all add: constructed_store_def constructor_st_def default_parameter_def
        new_object_def initial_store_def es2020_host_def spread_def over_def
        library_defaults_def empty_options_def Let_def)

subsection \<open>Determinism\<close>

text \<open>
  C8. On a fixed host, the output of a call of a public formatting method is a
  function of the method, its value arguments, the options record of the instance
  and the options the caller gives; so the same call, made again in the store the
  first call has left, has the same output.
\<close>

theorem same_call_same_output:
  assumes "allocated s (defaultOptions_ref this)" and "call_ok s c"
  shows
    "fst (invoke h this c s) =
       invoke_value h (instance_at s this) c (argument_at s (call_options c))
     \<and> fst (invoke h this c (snd (invoke h this c s))) = fst (invoke h this c s)"
  using invoke_sound(2) [OF assms, of h]
    invoke_after_extends [OF assms invoke_sound(1) [OF assms, of h], of h]
  by simp

theorem same_call_same_output_witness:
  "allocated constructed_store (defaultOptions_ref \<lparr>defaultOptions_ref = 1\<rparr>)
   \<and> call_ok constructed_store (FormatPercent (Fin 1) (Some 0))
   \<and> fst (invoke es2020_host \<lparr>defaultOptions_ref = 1\<rparr> (FormatPercent (Fin 1) (Some 0))
          constructed_store)
       = formatPercent es2020_host en_US_formatter (Fin 1) empty_options
   \<and> fst (invoke es2020_host \<lparr>defaultOptions_ref = 1\<rparr> (FormatPercent (Fin 1) (Some 0))
          (snd (invoke es2020_host \<lparr>defaultOptions_ref = 1\<rparr>
                  (FormatPercent (Fin 1) (Some 0)) constructed_store)))
       = fst (invoke es2020_host \<lparr>defaultOptions_ref = 1\<rparr>
                (FormatPercent (Fin 1) (Some 0)) constructed_store)"
proof -
  have a: "allocated constructed_store (defaultOptions_ref \<lparr>defaultOptions_ref = 1\<rparr>)"
    by (simp add: allocated_def constructed_store_simps)
  have c: "call_ok constructed_store (FormatPercent (Fin 1) (Some 0))"
    by (simp add: call_ok_def argument_ok_def allocated_def constructed_store_simps)
  show ?thesis
    using same_call_same_output [OF a c, of es2020_host] a c
    by (simp add: instance_at_def argument_at_def constructed_store_simps
          en_US_formatter_def)
qed

subsection \<open>No persistent state\<close>

text \<open>
  C9. After any sequence of calls of the public formatting methods, with any
  options (objects the caller has written before or between the calls, or none),
  the object \<open>this.defaultOptions\<close> points to is the one the constructor has
  written, so that every call has, after the sequence, the output it would have had
  before. (The callback of \<open>formatCustom\<close> is a function on strings, without
  access to the store.)
\<close>

theorem defaultOptions_unchanged:
  assumes "constructor_st h options s0 = (Inr this, s)" and "argument_ok s0 options"
    and "run_ok h this actions s"
  shows
    "objects (snd (run h this actions s)) (defaultOptions_ref this)
       = objects s (defaultOptions_ref this)
     \<and> constructor h (argument_at s0 options)
         = Inr \<lparr>defaultOptions =
                  objects (snd (run h this actions s)) (defaultOptions_ref this)\<rparr>
     \<and> (call_ok s c \<longrightarrow>
          fst (invoke h this c (snd (run h this actions s))) = fst (invoke h this c s))"
proof -
  note cs = constructor_st_sound [OF assms(1,2)]
  have e: "extends s (snd (run h this actions s))"
    using cs(1) assms(3) by (rule run_extends)
  have o: "objects (snd (run h this actions s)) (defaultOptions_ref this)
             = objects s (defaultOptions_ref this)"
    using e cs(1) by (rule extends_objects)
  show ?thesis
    using o cs(2) invoke_after_extends [OF cs(1) _ e, of c h]
    by (simp add: instance_at_def)
qed

theorem defaultOptions_unchanged_witness:
  "constructor_st es2020_host None initial_store
     = (Inr \<lparr>defaultOptions_ref = 1\<rparr>, constructed_store)
   \<and> argument_ok initial_store None
   \<and> run_ok es2020_host \<lparr>defaultOptions_ref = 1\<rparr>
        [New_options (empty_options\<lparr>style := Val Style_percent\<rparr>),
         Call (Format (Fin 1) (Some 2)), Call (FormatCompact (Fin 5000) (Some 0)),
         Call (FormatRange (Fin 1) (Fin 2) None)]
        constructed_store
   \<and> objects
        (snd (run es2020_host \<lparr>defaultOptions_ref = 1\<rparr>
                [New_options (empty_options\<lparr>style := Val Style_percent\<rparr>),
                 Call (Format (Fin 1) (Some 2)),
                 Call (FormatCompact (Fin 5000) (Some 0)),
                 Call (FormatRange (Fin 1) (Fin 2) None)]
                constructed_store)) 1
       = library_defaults ''en-US''
   \<and> call_ok constructed_store (FormatUnit (Fin 3) ''meter'' (Some 0))
   \<and> fst (invoke es2020_host \<lparr>defaultOptions_ref = 1\<rparr>
            (FormatUnit (Fin 3) ''meter'' (Some 0))
            (snd (run es2020_host \<lparr>defaultOptions_ref = 1\<rparr>
                    [New_options (empty_options\<lparr>style := Val Style_percent\<rparr>),
                     Call (Format (Fin 1) (Some 2)),
                     Call (FormatCompact (Fin 5000) (Some 0)),
                     Call (FormatRange (Fin 1) (Fin 2) None)]
                    constructed_store)))
       = fst (invoke es2020_host \<lparr>defaultOptions_ref = 1\<rparr>
                (FormatUnit (Fin 3) ''meter'' (Some 0)) constructed_store)"
proof -
  define s1 where
    "s1 = snd (new_object (empty_options\<lparr>style := Val Style_percent\<rparr>) constructed_store)"
  define s2 where
    "s2 = snd (invoke es2020_host \<lparr>defaultOptions_ref = 1\<rparr> (Format (Fin 1) (Some 2)) s1)"
  define s3 where
    "s3 = snd (invoke es2020_host \<lparr>defaultOptions_ref = 1\<rparr>
                 (FormatCompact (Fin 5000) (Some 0)) s2)"
  have n1: "next_ref s1 = 3"
    by (simp add: s1_def new_object_def constructed_store_simps)
  have a1: "allocated s1 (defaultOptions_ref \<lparr>defaultOptions_ref = 1\<rparr>)"
    by (simp add: allocated_def n1)
  have c1: "call_ok s1 (Format (Fin 1) (Some 2))"
    by (simp add: call_ok_def argument_ok_def allocated_def n1)
  have e2: "extends s1 s2"
    unfolding s2_def using a1 c1 by (rule invoke_sound(1))
  have a2: "allocated s2 (defaultOptions_ref \<lparr>defaultOptions_ref = 1\<rparr>)"
    using e2 a1 by (rule extends_allocated)
  have "call_ok s1 (FormatCompact (Fin 5000) (Some 0))"
    by (simp add: call_ok_def argument_ok_def allocated_def n1)
  then have c2: "call_ok s2 (FormatCompact (Fin 5000) (Some 0))"
    using e2 by (rule call_ok_extends [rotated])
  have c3: "call_ok s3 (FormatRange (Fin 1) (Fin 2) None)"
    by (simp add: call_ok_def argument_ok_def)
  have ok: "run_ok es2020_host \<lparr>defaultOptions_ref = 1\<rparr>
        [New_options (empty_options\<lparr>style := Val Style_percent\<rparr>),
         Call (Format (Fin 1) (Some 2)), Call (FormatCompact (Fin 5000) (Some 0)),
         Call (FormatRange (Fin 1) (Fin 2) None)]
        constructed_store"
    using c1 c2 c3 by (simp add: s1_def s2_def s3_def)
  have a: "argument_ok initial_store None"
    by (simp add: argument_ok_def)
  have c: "call_ok constructed_store (FormatUnit (Fin 3) ''meter'' (Some 0))"
    by (simp add: call_ok_def argument_ok_def allocated_def constructed_store_simps)
  show ?thesis
    using defaultOptions_unchanged
            [OF constructed_store_simps(1) a ok,
             of "FormatUnit (Fin 3) ''meter'' (Some 0)"]
      constructed_store_simps a ok c
    by simp
qed

end
